theory Spec2Isabelle
  imports Complex_Main "HOL-Library.AList" "HOL-Library.Char_ord" "HOL-Library.List_Lexorder"
begin

section \<open>Python values and library functions used by hbp_archive\<close>

text \<open>
  Exceptions are values: an operation that raises returns \<open>Inl\<close> of the exception, one that
  returns normally returns \<open>Inr\<close> of its result. Only the exception classes that the module
  raises, catches or lets through are listed. \<open>ClientException\<close> is the object store
  client's exception; \<open>AuthorizationFailure\<close> and \<open>Unauthorized\<close> are exceptions of the
  identity client, the second one that no clause of the module names.
\<close>

datatype exn =
    Exception string
  | ValueError string
  | IOError string
  | KeyError string
  | IndexError
  | TypeError
  | AttributeError
  | UnicodeDecodeError
  | ClientException string
  | AuthorizationFailure
  | Unauthorized

text \<open>\<open>str(e)\<close>: the message of an exception, as the log formats it.\<close>

fun str_exn :: "exn \<Rightarrow> string" where
  "str_exn (Exception m) = m"
| "str_exn (ValueError m) = m"
| "str_exn (IOError m) = m"
| "str_exn (KeyError m) = m"
| "str_exn (ClientException m) = m"
| "str_exn e = []"

text \<open>
  Truth value of an optional string argument (\<open>new_name=None\<close>, \<open>decode=False\<close>,
  \<open>token=None\<close>): \<open>None\<close>, \<open>False\<close> and the empty string are falsy.
\<close>

fun truthy :: "string option \<Rightarrow> bool" where
  "truthy None = False"
| "truthy (Some s) = (s \<noteq> [])"

definition startswith :: "string \<Rightarrow> string \<Rightarrow> bool" where
  "startswith s p = (take (length p) s = p)"

definition endswith :: "string \<Rightarrow> string \<Rightarrow> bool" where
  "endswith s p = startswith (rev s) (rev p)"

text \<open>\<open>s.split(sep)\<close> for a one-character separator: never empty, \<open>''''.split(sep) = ['''']\<close>.\<close>

primrec str_split :: "char \<Rightarrow> string \<Rightarrow> string list" where
  "str_split sep [] = [[]]"
| "str_split sep (c # cs) =
     (if c = sep then [] # str_split sep cs
      else (case str_split sep cs of w # ws \<Rightarrow> (c # w) # ws | [] \<Rightarrow> [[c]]))"

text \<open>\<open>sep.join(xs)\<close>.\<close>

fun str_join :: "string \<Rightarrow> string list \<Rightarrow> string" where
  "str_join sep [] = []"
| "str_join sep [x] = x"
| "str_join sep (x # y # ys) = x @ sep @ str_join sep (y # ys)"

text \<open>
  \<open>os.path\<close> on POSIX. \<open>basename\<close> is what follows the last slash; \<open>dirname\<close> what
  precedes it, with trailing slashes stripped unless the head is slashes only;
  \<open>join\<close> restarts at a component that begins with a slash and otherwise inserts one
  slash unless the path so far is empty or already ends in one.
\<close>

definition os_path_basename :: "string \<Rightarrow> string" where
  "os_path_basename p = rev (takeWhile (\<lambda>c. c \<noteq> CHR ''/'') (rev p))"

definition os_path_dirname :: "string \<Rightarrow> string" where
  "os_path_dirname p =
     (let head = rev (dropWhile (\<lambda>c. c \<noteq> CHR ''/'') (rev p))
      in if head \<noteq> [] \<and> \<not> list_all (\<lambda>c. c = CHR ''/'') head
         then rev (dropWhile (\<lambda>c. c = CHR ''/'') (rev head))
         else head)"

definition join_step :: "string \<Rightarrow> string \<Rightarrow> string" where
  "join_step path b =
     (if startswith b ''/'' then b
      else if path = [] \<or> endswith path ''/'' then path @ b
      else path @ ''/'' @ b)"

definition os_path_join :: "string \<Rightarrow> string list \<Rightarrow> string" where
  "os_path_join a p = foldl join_step a p"

section \<open>scale_bytes\<close>

definition allowed_units :: "(string \<times> real) list" where
  "allowed_units =
     [(''bytes'', 1), (''kB'', 1024), (''MB'', 1048576), (''GB'', 1073741824),
      (''TB'', 1099511627776)]"

text \<open>
  The module imports true division, so \<open>value / scale\<close> is the quotient as a number, not
  the floor; it is modelled by the exact quotient.
\<close>

definition scale_bytes :: "real \<Rightarrow> string \<Rightarrow> exn + real" where
  "scale_bytes value units =
     (case map_of allowed_units units of
        None \<Rightarrow> Inl (ValueError ''Units must be one of ['bytes', 'kB', 'MB', 'GB', 'TB']'')
      | Some scale \<Rightarrow> Inr (value / scale))"

section \<open>The object store behind a container\<close>

text \<open>
  The storage service is an external collaborator. It is modelled by its contract: a
  container is a flat mapping from object keys to stored objects, listed in key order,
  together with the container's metadata headers. The account is taken to hold this one
  container, and the only failure of a call is the client exception for a missing object or
  an unusable copy destination. Listing entries also carry a hash and a modification time;
  no operation of the module reads them and they are left out.
\<close>

type_synonym byte_string = "char list"

record stored_object =
  object_bytes :: byte_string
  object_content_type :: string

datatype log_record = ERROR string | INFO string

record Project =
  project_id :: string
  users :: "(string \<times> string) list"

text \<open>
  A \<open>Container\<close> instance: its project, its name and the cached metadata (the source's
  \<open>_metadata\<close>), with the remote state its connection reaches (objects and headers) and
  the records written to the log so far.
\<close>

record Container =
  project :: Project
  name :: string
  metadata_cache :: "(string \<times> string) list option"
  remote_objects :: "(string \<times> stored_object) list"
  remote_headers :: "(string \<times> string) list"
  logged :: "log_record list"

definition logging_error :: "string \<Rightarrow> Container \<Rightarrow> Container" where
  "logging_error m self = self\<lparr>logged := logged self @ [ERROR m]\<rparr>"

definition logging_info :: "string \<Rightarrow> Container \<Rightarrow> Container" where
  "logging_info m self = self\<lparr>logged := logged self @ [INFO m]\<rparr>"

text \<open>Writing a key keeps the listing in key order and replaces an existing entry.\<close>

fun store_put :: "string \<Rightarrow> 'v \<Rightarrow> (string \<times> 'v) list \<Rightarrow> (string \<times> 'v) list" where
  "store_put k v [] = [(k, v)]"
| "store_put k v ((k', v') # rest) =
     (if k = k' then (k, v) # rest
      else if k < k' then (k, v) # (k', v') # rest
      else (k', v') # store_put k v rest)"

definition head_object :: "Container \<Rightarrow> string \<Rightarrow> exn + stored_object" where
  "head_object self obj =
     (case map_of (remote_objects self) obj of
        None \<Rightarrow> Inl (ClientException ''Object HEAD failed: 404 Not Found'')
      | Some ob \<Rightarrow> Inr ob)"

definition get_object :: "Container \<Rightarrow> string \<Rightarrow> exn + stored_object" where
  "get_object self obj =
     (case map_of (remote_objects self) obj of
        None \<Rightarrow> Inl (ClientException ''Object GET failed: 404 Not Found'')
      | Some ob \<Rightarrow> Inr ob)"

definition put_object :: "(string \<Rightarrow> string) \<Rightarrow> Container \<Rightarrow> string \<Rightarrow> byte_string \<Rightarrow> Container" where
  "put_object guess_type self obj contents =
     self\<lparr>remote_objects :=
       store_put obj \<lparr>object_bytes = contents, object_content_type = guess_type obj\<rparr>
         (remote_objects self)\<rparr>"

text \<open>
  The destination of a copy is \<open>/container/object\<close>, the leading slash optional; the
  container and the object part must both be non-empty.
\<close>

definition parse_destination :: "string \<Rightarrow> (string \<times> string) option" where
  "parse_destination d =
     (let p = (if startswith d ''/'' then tl d else d);
          c = takeWhile (\<lambda>x. x \<noteq> CHR ''/'') p;
          r = dropWhile (\<lambda>x. x \<noteq> CHR ''/'') p
      in if c = [] \<or> r = [] \<or> tl r = [] then None else Some (c, tl r))"

definition copy_object :: "Container \<Rightarrow> string \<Rightarrow> string \<Rightarrow> exn + Container" where
  "copy_object self obj destination =
     (case parse_destination destination of
        None \<Rightarrow> Inl (ClientException ''Object COPY failed: 412 Precondition Failed'')
      | Some (c, k) \<Rightarrow>
          (case map_of (remote_objects self) obj of
             None \<Rightarrow> Inl (ClientException ''Object COPY failed: 404 Not Found'')
           | Some ob \<Rightarrow>
               if c = name self
               then Inr (self\<lparr>remote_objects := store_put k ob (remote_objects self)\<rparr>)
               else Inl (ClientException ''Object COPY failed: 404 Not Found'')))"

definition delete_object :: "Container \<Rightarrow> string \<Rightarrow> exn + Container" where
  "delete_object self obj =
     (case map_of (remote_objects self) obj of
        None \<Rightarrow> Inl (ClientException ''Object DELETE failed: 404 Not Found'')
      | Some ob \<Rightarrow> Inr (self\<lparr>remote_objects := AList.delete obj (remote_objects self)\<rparr>))"

definition head_container :: "Container \<Rightarrow> (string \<times> string) list" where
  "head_container self = remote_headers self"

definition get_container ::
  "Container \<Rightarrow> (string \<times> string) list \<times> (string \<times> stored_object) list" where
  "get_container self = (remote_headers self, remote_objects self)"

text \<open>A metadata update sets each posted header; an empty value removes it.\<close>

definition post_container :: "Container \<Rightarrow> (string \<times> string) list \<Rightarrow> Container" where
  "post_container self headers =
     self\<lparr>remote_headers :=
       foldl (\<lambda>h (k, v). if v = [] then AList.delete k h else AList.update k v h)
         (remote_headers self) headers\<rparr>"

section \<open>File and Container\<close>

text \<open>
  A \<open>File\<close> is one listing entry. Its back-reference to the owning container is the
  container's name, or \<open>None\<close> for a detached instance; the container itself is the state
  that the operations below take and return.
\<close>

record File =
  name :: string
  bytes :: nat
  content_type :: string
  container :: "string option"

text \<open>
  Every method takes \<open>self\<close> and returns what the call gives its caller (an exception, or
  the returned value, \<open>()\<close> for \<open>None\<close>) together with \<open>self\<close> as the call leaves it.
\<close>

definition Container_metadata :: "Container \<Rightarrow> (string \<times> string) list \<times> Container" where
  "Container_metadata self =
     (case metadata_cache self of
        None \<Rightarrow> (head_container self, self\<lparr>metadata_cache := Some (head_container self)\<rparr>)
      | Some m \<Rightarrow> (m, self))"

definition Container_list :: "Container \<Rightarrow> File list \<times> Container" where
  "Container_list self =
     (case get_container self of
        (headers, contents) \<Rightarrow>
          (map (\<lambda>(k, ob). \<lparr>File.name = k, bytes = length (object_bytes ob),
                             content_type = object_content_type ob,
                             container = Some (Container.name self)\<rparr>) contents,
           self\<lparr>metadata_cache := Some headers\<rparr>))"

definition target_exists_message :: string where
  "target_exists_message =
     ''Target file path already exists! Set `overwrite=True` to overwrite file.''"

text \<open>
  \<open>upload\<close>, \<open>copy\<close> and \<open>move\<close> guard the write the same way: without \<open>overwrite\<close> the
  target is probed with \<open>head_object\<close>; when the probe returns, the \<open>IOError\<close> raised
  inside the \<open>try\<close> is caught by the \<open>except IOError\<close> right below it, which logs the error
  and returns \<open>None\<close>; when the probe raises the client exception, execution goes on.
  \<open>isl\<close> holds of a call that raised.
\<close>

datatype local_paths = Single string | Many "string list"

fun upload_loop ::
  "(string \<Rightarrow> byte_string option) \<Rightarrow> (string \<Rightarrow> string) \<Rightarrow> Container \<Rightarrow> string list \<Rightarrow>
   string \<Rightarrow> bool \<Rightarrow> string list \<Rightarrow> (exn + string list option) \<times> Container" where
  "upload_loop files guess_type self [] remote_directory overwrite remote_paths =
     (Inr (Some remote_paths), self)"
| "upload_loop files guess_type self (path # rest) remote_directory overwrite remote_paths =
     (let remote_path = os_path_join remote_directory [os_path_basename path] in
      if \<not> overwrite \<and> \<not> isl (head_object self remote_path)
      then (Inr None,
            logging_error (''File: '' @ path @ '' not uploaded. Reason: '' @
                           str_exn (IOError target_exists_message)) self)
      else (case files path of
              None \<Rightarrow> (Inl (IOError (''No such file or directory: '' @ path)), self)
            | Some file_data \<Rightarrow>
                upload_loop files guess_type (put_object guess_type self remote_path file_data)
                  rest remote_directory overwrite (remote_paths @ [remote_path])))"

text \<open>
  \<open>files\<close> is the local file system (what \<open>open(path, 'rb').read()\<close> gives, \<open>None\<close> where
  opening fails) and \<open>guess_type\<close> the content type the store assigns to a new key.
\<close>

definition Container_upload ::
  "(string \<Rightarrow> byte_string option) \<Rightarrow> (string \<Rightarrow> string) \<Rightarrow> Container \<Rightarrow> local_paths \<Rightarrow>
   string \<Rightarrow> bool \<Rightarrow> (exn + string list option) \<times> Container" where
  "Container_upload files guess_type self local_paths remote_directory overwrite =
     upload_loop files guess_type self
       (case local_paths of Single path \<Rightarrow> [path] | Many paths \<Rightarrow> paths)
       remote_directory overwrite []"

datatype payload = Raw byte_string | Text string

definition text_content_types :: "string list" where
  "text_content_types = [''application/json'']"

text \<open>
  \<open>decode_bytes encoding contents\<close> is Python's \<open>contents.decode(encoding)\<close>, a builtin
  taken as a parameter. \<open>decode\<close> is the encoding name, \<open>None\<close> standing for \<open>False\<close>.
\<close>

definition Container_read ::
  "(string \<Rightarrow> byte_string \<Rightarrow> exn + string) \<Rightarrow> Container \<Rightarrow> string \<Rightarrow> string option \<Rightarrow>
   string list \<Rightarrow> exn + payload" where
  "Container_read decode_bytes self file_path decode accept =
     (case get_object self file_path of
        Inl e \<Rightarrow> Inl e
      | Inr ob \<Rightarrow>
          (let contents = object_bytes ob;
               content_type = object_content_type ob;
               ct_parts = str_split CHR ''/'' content_type
           in if (hd ct_parts = ''text'' \<or> content_type \<in> set text_content_types \<or>
                  content_type \<in> set accept) \<and> truthy decode
              then (case decode_bytes (the decode) contents of
                      Inl e \<Rightarrow> Inl e
                    | Inr s \<Rightarrow> Inr (Text s))
              else Inr (Raw contents)))"

definition Container_copy ::
  "Container \<Rightarrow> string \<Rightarrow> string \<Rightarrow> string option \<Rightarrow> bool \<Rightarrow> (exn + unit) \<times> Container" where
  "Container_copy self file_path target_directory new_name overwrite =
     (let new_name = (if \<not> truthy new_name then os_path_basename file_path else the new_name) in
      if \<not> overwrite \<and> \<not> isl (head_object self (os_path_join target_directory [new_name]))
      then (Inr (), logging_error (str_exn (IOError target_exists_message)) self)
      else (case copy_object self file_path
                   (os_path_join (Container.name self) [target_directory, new_name]) of
              Inr self' \<Rightarrow> (Inr (), logging_info ''Successfully copied the object'' self')
            | Inl e \<Rightarrow>
                (Inr (), logging_info (''Failed to copy the object with error: '' @ str_exn e) self)))"

definition Container_move ::
  "Container \<Rightarrow> string \<Rightarrow> string \<Rightarrow> string option \<Rightarrow> bool \<Rightarrow> (exn + unit) \<times> Container" where
  "Container_move self file_path target_directory new_name overwrite =
     (let new_name = (if \<not> truthy new_name then os_path_basename file_path else the new_name) in
      if \<not> overwrite \<and> \<not> isl (head_object self (os_path_join target_directory [new_name]))
      then (Inr (), logging_error (str_exn (IOError target_exists_message)) self)
      else (case copy_object self file_path
                   (os_path_join (Container.name self) [target_directory, new_name]) of
              Inl e \<Rightarrow>
                (Inr (),
                 logging_error (''Failed to move/rename the object with error: '' @ str_exn e) self)
            | Inr self' \<Rightarrow>
                (case delete_object self' file_path of
                   Inl e \<Rightarrow>
                     (Inr (),
                      logging_error (''Failed to move/rename the object with error: '' @ str_exn e)
                        self')
                 | Inr self'' \<Rightarrow>
                     (Inr (),
                      logging_info
                        (if os_path_dirname file_path = target_directory
                         then ''Successfully renamed the object''
                         else ''Successfully moved the object'') self''))))"

definition Container_delete :: "Container \<Rightarrow> string \<Rightarrow> (exn + unit) \<times> Container" where
  "Container_delete self file_path =
     (case delete_object self file_path of
        Inr self' \<Rightarrow> (Inr (), logging_info ''Successfully deleted the object'' self')
      | Inl e \<Rightarrow>
          (Inr (), logging_error (''Failed to delete the object with error: '' @ str_exn e) self))"

text \<open>The \<open>for f in dir_files\<close> loops; an exception from the body would end the loop.\<close>

fun copy_loop ::
  "Container \<Rightarrow> File list \<Rightarrow> string \<Rightarrow> bool \<Rightarrow> (exn + unit) \<times> Container" where
  "copy_loop self [] target overwrite = (Inr (), self)"
| "copy_loop self (f # fs) target overwrite =
     (case Container_copy (logging_info (''Filename: '' @ File.name f) self)
             (File.name f) target None overwrite of
        (Inl e, self') \<Rightarrow> (Inl e, self')
      | (Inr u, self') \<Rightarrow> copy_loop self' fs target overwrite)"

definition Container_copy_directory ::
  "Container \<Rightarrow> string \<Rightarrow> string \<Rightarrow> string option \<Rightarrow> bool \<Rightarrow> (exn + unit) \<times> Container" where
  "Container_copy_directory self directory_path target_directory new_name overwrite =
     (if directory_path = [] then (Inl IndexError, self)
      else
        (let directory_path =
               (if last directory_path \<noteq> CHR ''/'' then directory_path @ ''/''
                else directory_path);
             new_name =
               (if \<not> truthy new_name then os_path_basename directory_path else the new_name)
         in case Container_list self of
              (all_files, self') \<Rightarrow>
                (let dir_files = filter (\<lambda>f. startswith (File.name f) directory_path) all_files
                 in if dir_files = []
                    then (Inl (Exception ''Specified directory does not exist in this container!''),
                          self')
                    else copy_loop (logging_info ''***** Directory Copy Details *****'' self')
                           dir_files (os_path_join target_directory [new_name]) overwrite)))"

fun delete_loop :: "Container \<Rightarrow> File list \<Rightarrow> (exn + unit) \<times> Container" where
  "delete_loop self [] = (Inr (), self)"
| "delete_loop self (f # fs) =
     (case Container_delete (logging_info (''Filename: '' @ File.name f) self) (File.name f) of
        (Inl e, self') \<Rightarrow> (Inl e, self')
      | (Inr u, self') \<Rightarrow> delete_loop self' fs)"

definition Container_delete_directory :: "Container \<Rightarrow> string \<Rightarrow> (exn + unit) \<times> Container" where
  "Container_delete_directory self directory_path =
     (if directory_path = [] then (Inl IndexError, self)
      else
        (let directory_path =
               (if last directory_path \<noteq> CHR ''/'' then directory_path @ ''/''
                else directory_path)
         in case Container_list self of
              (all_files, self') \<Rightarrow>
                (let dir_files = filter (\<lambda>f. startswith (File.name f) directory_path) all_files
                 in if dir_files = []
                    then (Inl (Exception ''Specified directory does not exist in this container!''),
                          self')
                    else delete_loop (logging_info ''***** Directory Delete Details *****'' self')
                           dir_files)))"

text \<open>
  \<open>File.copy\<close>: the call on a detached instance fails on the attribute lookup; otherwise
  it is the container's \<open>copy\<close> as the source writes it.
\<close>

definition File_copy ::
  "File \<Rightarrow> Container \<Rightarrow> string \<Rightarrow> string option \<Rightarrow> bool \<Rightarrow> (exn + unit) \<times> Container" where
  "File_copy self c target_directory new_name overwrite =
     (case container self of
        None \<Rightarrow> (Inl AttributeError, c)
      | Some owner \<Rightarrow>
          Container_copy c (File.name self) (os_path_dirname (File.name self)) new_name overwrite)"

section \<open>Access control lists\<close>

text \<open>
  \<open>metadata.get('x-container-<key>', [])\<close> followed by \<open>if item: item = item.split(",")\<close>:
  a missing header gives the empty list, a non-empty header its comma-separated entries,
  and an empty header stays the (empty) string.
\<close>

datatype acl_value = Entries "string list" | Str string

definition acl_item :: "(string \<times> string) list \<Rightarrow> string \<Rightarrow> acl_value" where
  "acl_item metadata key =
     (case map_of metadata (''x-container-'' @ key) of
        None \<Rightarrow> Entries []
      | Some item \<Rightarrow> if item \<noteq> [] then Entries (str_split CHR '','' item) else Str item)"

text \<open>
  The inner loop of \<open>access_control\<close>: the public markers set \<open>is_public\<close>, every other
  entry contributes \<open>item.split(":")[1]\<close>, which fails on an entry without a colon.
\<close>

fun user_ids_loop :: "string list \<Rightarrow> bool \<Rightarrow> string list \<Rightarrow> exn + bool \<times> string list" where
  "user_ids_loop [] is_public user_ids = Inr (is_public, user_ids)"
| "user_ids_loop (item # items) is_public user_ids =
     (if item = ''.r:*'' \<or> item = ''.rlistings'' then user_ids_loop items True user_ids
      else (case str_split CHR '':'' item of
              p # u # rest \<Rightarrow> user_ids_loop items is_public (user_ids @ [u])
            | _ \<Rightarrow> Inl IndexError))"

definition show_names :: "(string \<times> string) list \<Rightarrow> acl_value \<Rightarrow> exn + acl_value" where
  "show_names user_id_map v =
     (case user_ids_loop (case v of Entries items \<Rightarrow> items | Str s \<Rightarrow> map (\<lambda>c. [c]) s)
             False [] of
        Inl e \<Rightarrow> Inl e
      | Inr (is_public, user_ids) \<Rightarrow>
          Inr (Entries
            (map (\<lambda>user_id. case map_of user_id_map user_id of
                               None \<Rightarrow> user_id | Some n \<Rightarrow> n) user_ids
             @ (if is_public then [''PUBLIC''] else []))))"

definition Container_access_control ::
  "Container \<Rightarrow> bool \<Rightarrow> (exn + (string \<times> acl_value) list) \<times> Container" where
  "Container_access_control self show_usernames =
     (case Container_metadata self of
        (metadata, self') \<Rightarrow>
          (let acl = [(''read'', acl_item metadata ''read''),
                      (''write'', acl_item metadata ''write'')]
           in if show_usernames
              then (case show_names (users (project self')) (acl_item metadata ''read'') of
                      Inl e \<Rightarrow> (Inl e, self')
                    | Inr r \<Rightarrow>
                        (case show_names (users (project self')) (acl_item metadata ''write'') of
                           Inl e \<Rightarrow> (Inl e, self')
                         | Inr w \<Rightarrow> (Inr [(''read'', r), (''write'', w)], self')))
              else (Inr acl, self')))"

text \<open>
  \<open>grant_access\<close>. The dictionary comprehension \<open>{v: k for k, v in users.items()}\<close>
  inserts in order, a later user id replacing an earlier one with the same username.
\<close>

definition Container_grant_access ::
  "Container \<Rightarrow> string \<Rightarrow> string \<Rightarrow> (exn + unit) \<times> Container" where
  "Container_grant_access self username mode =
     (let name_map = foldl (\<lambda>m (k, v). AList.update v k m) [] (users (project self)) in
      case map_of name_map username of
        None \<Rightarrow> (Inl (KeyError username), self)
      | Some user_id \<Rightarrow>
          (case Container_access_control self False of
             (Inl e, self') \<Rightarrow> (Inl e, self')
           | (Inr acl, self') \<Rightarrow>
               (case map_of acl mode of
                  None \<Rightarrow> (Inl (KeyError mode), self')
                | Some (Str s) \<Rightarrow> (Inl TypeError, self')
                | Some (Entries items) \<Rightarrow>
                    (let new_acl = items @ [project_id (project self') @ '':'' @ user_id];
                         headers = [(''x-container-'' @ mode, str_join '','' new_acl)];
                         self'' = post_container self' headers
                     in (Inr (), self''\<lparr>metadata_cache := None\<rparr>)))))"

section \<open>Archive\<close>

text \<open>
  The identity service is external: \<open>get_user_id\<close> is what the session answers for the
  credentials (the user id, or the exception it raises) and \<open>projects_list\<close> the projects
  of a user as (name, id) pairs. \<open>CSCS_PASS\<close> is the environment variable and \<open>getpass\<close>
  what the user types at the prompt.
\<close>

datatype auth = Token string | V3Saml2Password string string

record Archive =
  username :: string
  user_id :: string
  ks_projects :: "(string \<times> string) list"

text \<open>The credentials the constructor builds: the first statement of \<open>__init__\<close>.\<close>

definition Archive_auth :: "string option \<Rightarrow> string \<Rightarrow> string \<Rightarrow> string option \<Rightarrow> auth" where
  "Archive_auth CSCS_PASS getpass uname token =
     (if truthy token then Token (the token)
      else V3Saml2Password uname (if \<not> truthy CSCS_PASS then getpass else the CSCS_PASS))"

definition Archive_init ::
  "(auth \<Rightarrow> exn + string) \<Rightarrow> (string \<Rightarrow> (string \<times> string) list) \<Rightarrow> string option \<Rightarrow> string \<Rightarrow>
   string \<Rightarrow> string option \<Rightarrow> exn + Archive" where
  "Archive_init get_user_id projects_list CSCS_PASS getpass uname token =
     (case get_user_id (Archive_auth CSCS_PASS getpass uname token) of
        Inl AuthorizationFailure \<Rightarrow>
          Inl (Exception ''Couldn't authenticate! Incorrect username.'')
      | Inl IndexError \<Rightarrow>
          Inl (Exception ''Couldn't authenticate! Incorrect password.'')
      | Inl e \<Rightarrow> Inl e
      | Inr uid \<Rightarrow>
          Inr \<lparr>username = uname, user_id = uid,
               ks_projects = foldl (\<lambda>d (n, i). AList.update n i d) [] (projects_list uid)\<rparr>)"

section \<open>Example containers\<close>

text \<open>
  The scenarios the specification names: a container in which the destination
  \<open>x/new.txt\<close> of a copy of \<open>src.txt\<close> already exists, and a container holding the
  single object \<open>a.txt\<close>.
\<close>

definition conflict_example :: Container where
  "conflict_example =
     \<lparr>project = \<lparr>project_id = ''p1'', users = []\<rparr>, name = ''c'', metadata_cache = None,
      remote_objects =
        [(''src.txt'', \<lparr>object_bytes = ''new'', object_content_type = ''text/plain''\<rparr>),
         (''x/new.txt'', \<lparr>object_bytes = ''old'', object_content_type = ''text/plain''\<rparr>)],
      remote_headers = [], logged = []\<rparr>"

definition move_example :: Container where
  "move_example =
     \<lparr>project = \<lparr>project_id = ''p1'', users = []\<rparr>, name = ''c'', metadata_cache = None,
      remote_objects =
        [(''a.txt'', \<lparr>object_bytes = ''data'', object_content_type = ''text/plain''\<rparr>)],
      remote_headers = [], logged = []\<rparr>"

text \<open>
  A container with a binary, a JSON and a plain text object, and a container whose
  project has two users and whose read list holds one user and the public marker.
\<close>

definition read_example :: Container where
  "read_example =
     \<lparr>project = \<lparr>project_id = ''p1'', users = []\<rparr>, name = ''c'', metadata_cache = None,
      remote_objects =
        [(''blob.bin'', \<lparr>object_bytes = ''raw'', object_content_type = ''application/octet-stream''\<rparr>),
         (''data.json'', \<lparr>object_bytes = ''{}'', object_content_type = ''application/json''\<rparr>),
         (''notes.txt'', \<lparr>object_bytes = ''hello'', object_content_type = ''text/plain''\<rparr>)],
      remote_headers = [], logged = []\<rparr>"

definition acl_example :: Container where
  "acl_example =
     \<lparr>project = \<lparr>project_id = ''p1'', users = [(''u1'', ''alice''), (''u2'', ''bob'')]\<rparr>,
      name = ''c'', metadata_cache = None, remote_objects = [],
      remote_headers = [(''x-container-read'', ''p1:u1,.r:*'')], logged = []\<rparr>"

text \<open>
  An identity client for the examples: it knows the user \<open>alice\<close> with the password
  \<open>secret\<close> and the token \<open>tok\<close>, answers an unknown user with \<open>AuthorizationFailure\<close>,
  a wrong password with \<open>IndexError\<close> and any other token with \<open>Unauthorized\<close>.
\<close>

definition identity_example :: "auth \<Rightarrow> exn + string" where
  "identity_example a =
     (case a of
        Token k \<Rightarrow> if k = ''tok'' then Inr ''u1'' else Inl Unauthorized
      | V3Saml2Password n pw \<Rightarrow>
          if n \<noteq> ''alice'' then Inl AuthorizationFailure
          else if pw \<noteq> ''secret'' then Inl IndexError
          else Inr ''u1'')"

section \<open>scale_bytes: the unit table\<close>

lemma scale_bytes_unknown_unit:
  "map_of allowed_units units = None \<Longrightarrow> \<exists>m. scale_bytes x units = Inl (ValueError m)"
  by (simp add: scale_bytes_def)

text \<open>
  C5: \<open>scale_bytes(1048576, "MB")\<close> is \<open>1.0\<close>, and for every value \<open>x\<close> a unit outside
  \<open>bytes\<close>, \<open>kB\<close>, \<open>MB\<close>, \<open>GB\<close>, \<open>TB\<close> makes \<open>scale_bytes\<close> raise \<open>ValueError\<close>.
\<close>

theorem C5_scale_bytes:
  "scale_bytes 1048576 ''MB'' = Inr 1 \<and>
   (units \<notin> {''bytes'', ''kB'', ''MB'', ''GB'', ''TB''} \<longrightarrow>
      (\<exists>m. scale_bytes x units = Inl (ValueError m)))"
proof (intro conjI impI)
  show "scale_bytes 1048576 ''MB'' = Inr 1"
    by (simp add: scale_bytes_def allowed_units_def)
next
  assume "units \<notin> {''bytes'', ''kB'', ''MB'', ''GB'', ''TB''}"
  then have "map_of allowed_units units = None"
    by (simp add: allowed_units_def)
  then show "\<exists>m. scale_bytes x units = Inl (ValueError m)"
    by (rule scale_bytes_unknown_unit)
qed

theorem C5_scale_bytes_witness:
  "''unknown-unit'' \<notin> {''bytes'', ''kB'', ''MB'', ''GB'', ''TB''} \<and>
   (\<exists>m. scale_bytes 7 ''unknown-unit'' = Inl (ValueError m))"
  using C5_scale_bytes [of "''unknown-unit''" 7] by simp

section \<open>Listing and deleting\<close>

lemma Container_list_names: "map File.name (fst (Container_list s)) = map fst (remote_objects s)"
  by (simp add: Container_list_def get_container_def split_def comp_def)

lemma Container_list_objects: "remote_objects (snd (Container_list s)) = remote_objects s"
  by (simp add: Container_list_def get_container_def split_def)

lemma Container_delete_result:
  "fst (Container_delete s k) = Inr () \<and>
   remote_objects (snd (Container_delete s k)) = AList.delete k (remote_objects s)"
proof (cases "map_of (remote_objects s) k")
  case None
  then have "k \<notin> fst ` set (remote_objects s)"
    by (simp add: map_of_eq_None_iff)
  then have "AList.delete k (remote_objects s) = remote_objects s"
    by (rule delete_id)
  with None show ?thesis
    by (simp add: Container_delete_def delete_object_def logging_error_def)
next
  case (Some ob)
  then show ?thesis
    by (simp add: Container_delete_def delete_object_def logging_info_def)
qed

lemma delete_loop_result:
  "fst (delete_loop s fs) = Inr () \<and>
   remote_objects (snd (delete_loop s fs)) =
     filter (\<lambda>e. fst e \<notin> File.name ` set fs) (remote_objects s)"
proof (induction fs arbitrary: s)
  case Nil
  then show ?case by simp
next
  case (Cons f fs)
  let ?s = "logging_info (''Filename: '' @ File.name f) s"
  obtain r s' where step: "Container_delete ?s (File.name f) = (r, s')"
    by (cases "Container_delete ?s (File.name f)")
  have r: "r = Inr ()"
    using Container_delete_result [of ?s "File.name f"] step by simp
  have o: "remote_objects s' = AList.delete (File.name f) (remote_objects s)"
    using Container_delete_result [of ?s "File.name f"] step
    by (simp add: logging_info_def)
  show ?case
    using Cons.IH [of s'] step r o
    by (auto simp: AList.delete_eq intro: filter_cong)
qed

lemma delete_directory_cases:
  assumes "directory_path \<noteq> []"
    and "d = (if last directory_path \<noteq> CHR ''/'' then directory_path @ ''/'' else directory_path)"
  shows "(if \<exists>k \<in> fst ` set (remote_objects self). startswith k d
     then fst (Container_delete_directory self directory_path) = Inr () \<and>
          remote_objects (snd (Container_delete_directory self directory_path)) =
            filter (\<lambda>e. \<not> startswith (fst e) d) (remote_objects self)
     else fst (Container_delete_directory self directory_path) =
            Inl (Exception ''Specified directory does not exist in this container!'') \<and>
          remote_objects (snd (Container_delete_directory self directory_path)) =
            remote_objects self)"
proof -
  obtain fs s' where l: "Container_list self = (fs, s')"
    by (cases "Container_list self")
  have names: "map File.name fs = map fst (remote_objects self)"
    using Container_list_names [of self] l by simp
  have objs: "remote_objects s' = remote_objects self"
    using Container_list_objects [of self] l by simp
  let ?dir = "filter (\<lambda>f. startswith (File.name f) d) fs"
  let ?s = "logging_info ''***** Directory Delete Details *****'' s'"
  have dirnames: "File.name ` set ?dir = {k \<in> fst ` set (remote_objects self). startswith k d}"
  proof -
    have eq: "File.name ` set fs = fst ` set (remote_objects self)"
      using names by (metis set_map)
    have "File.name ` set ?dir = {k \<in> File.name ` set fs. startswith k d}"
      by auto
    then show ?thesis unfolding eq .
  qed
  have empty_iff: "?dir = [] \<longleftrightarrow> \<not> (\<exists>k \<in> fst ` set (remote_objects self). startswith k d)"
  proof -
    have "?dir = [] \<longleftrightarrow> File.name ` set ?dir = {}"
      by (auto simp: filter_empty_conv)
    then show ?thesis unfolding dirnames by auto
  qed
  have unfold: "Container_delete_directory self directory_path =
     (if ?dir = [] then (Inl (Exception ''Specified directory does not exist in this container!''), s')
      else delete_loop ?s ?dir)"
    using assms l by (simp add: Container_delete_directory_def Let_def)
  show ?thesis
  proof (cases "?dir = []")
    case True
    then show ?thesis using unfold empty_iff objs by simp
  next
    case False
    have "remote_objects (snd (delete_loop ?s ?dir)) =
        filter (\<lambda>e. fst e \<notin> File.name ` set ?dir) (remote_objects self)"
      using delete_loop_result [of ?s ?dir] objs by (simp add: logging_info_def)
    also have "\<dots> = filter (\<lambda>e. \<not> startswith (fst e) d) (remote_objects self)"
      unfolding dirnames by (rule filter_cong) auto
    finally show ?thesis
      using False unfold empty_iff delete_loop_result [of ?s ?dir] by simp
  qed
qed

text \<open>
  C4: \<open>delete_directory\<close> removes exactly the objects whose key starts with the directory
  path, a slash appended when the path does not end in one, and leaves every other object
  untouched; a call that matches no key, as the repeated call does, raises the exception
  for a directory that does not exist. In the container holding \<open>a/1.txt\<close>, \<open>a/2.txt\<close>
  and \<open>b/3.txt\<close> the call on \<open>a\<close> therefore leaves \<open>b/3.txt\<close> alone and the repeated
  call fails.
\<close>

theorem C4_delete_directory:
  assumes "directory_path \<noteq> []"
    and "d = (if last directory_path \<noteq> CHR ''/'' then directory_path @ ''/'' else directory_path)"
    and "\<exists>k \<in> fst ` set (remote_objects self). startswith k d"
  shows "fst (Container_delete_directory self directory_path) = Inr () \<and>
     remote_objects (snd (Container_delete_directory self directory_path)) =
       filter (\<lambda>e. \<not> startswith (fst e) d) (remote_objects self) \<and>
     fst (Container_delete_directory (snd (Container_delete_directory self directory_path))
            directory_path) =
       Inl (Exception ''Specified directory does not exist in this container!'') \<and>
     remote_objects (snd (Container_delete_directory
         (snd (Container_delete_directory self directory_path)) directory_path)) =
       filter (\<lambda>e. \<not> startswith (fst e) d) (remote_objects self)"
proof -
  let ?s1 = "snd (Container_delete_directory self directory_path)"
  have first: "fst (Container_delete_directory self directory_path) = Inr () \<and>
      remote_objects ?s1 = filter (\<lambda>e. \<not> startswith (fst e) d) (remote_objects self)"
    using delete_directory_cases [OF assms(1) assms(2), of self] assms(3) by simp
  then have none: "\<not> (\<exists>k \<in> fst ` set (remote_objects ?s1). startswith k d)"
    by auto
  have second: "fst (Container_delete_directory ?s1 directory_path) =
        Inl (Exception ''Specified directory does not exist in this container!'') \<and>
      remote_objects (snd (Container_delete_directory ?s1 directory_path)) = remote_objects ?s1"
    using delete_directory_cases [OF assms(1) assms(2), of ?s1] none by simp
  from first second show ?thesis by simp
qed

theorem C4_delete_directory_witness:
  "(let c = \<lparr>project = \<lparr>project_id = ''p1'', users = []\<rparr>, name = ''c'', metadata_cache = None,
             remote_objects =
               [(''a/1.txt'', \<lparr>object_bytes = ''one'', object_content_type = ''text/plain''\<rparr>),
                (''a/2.txt'', \<lparr>object_bytes = ''two'', object_content_type = ''text/plain''\<rparr>),
                (''b/3.txt'', \<lparr>object_bytes = ''three'', object_content_type = ''text/plain''\<rparr>)],
             remote_headers = [], logged = []\<rparr>;
        r1 = Container_delete_directory c ''a'';
        r2 = Container_delete_directory (snd r1) ''a''
    in fst r1 = Inr () \<and>
       remote_objects (snd r1) =
         [(''b/3.txt'', \<lparr>object_bytes = ''three'', object_content_type = ''text/plain''\<rparr>)] \<and>
       fst r2 = Inl (Exception ''Specified directory does not exist in this container!'') \<and>
       remote_objects (snd r2) =
         [(''b/3.txt'', \<lparr>object_bytes = ''three'', object_content_type = ''text/plain''\<rparr>)])"
  using C4_delete_directory [of "''a''" "''a/''"
      "\<lparr>project = \<lparr>project_id = ''p1'', users = []\<rparr>, name = ''c'', metadata_cache = None,
        remote_objects =
          [(''a/1.txt'', \<lparr>object_bytes = ''one'', object_content_type = ''text/plain''\<rparr>),
           (''a/2.txt'', \<lparr>object_bytes = ''two'', object_content_type = ''text/plain''\<rparr>),
           (''b/3.txt'', \<lparr>object_bytes = ''three'', object_content_type = ''text/plain''\<rparr>)],
        remote_headers = [], logged = []\<rparr>"]
  by (simp add: startswith_def Let_def)

section \<open>Copying a directory\<close>

lemmas copy_directory_eval =
  Container_copy_directory_def Container_list_def get_container_def
  Container_copy_def copy_object_def head_object_def parse_destination_def
  os_path_join_def join_step_def os_path_basename_def startswith_def endswith_def
  logging_info_def logging_error_def Let_def

text \<open>
  C1: \<open>copy_directory\<close> on a directory with sub-directories. The container holds
  \<open>a/x/1.txt\<close> and \<open>a/y/1.txt\<close>; the target location \<open>t\<close> is empty, so no destination
  conflict exists beforehand. The call returns normally, and afterwards the only object
  below \<open>t\<close> is \<open>t/1.txt\<close>, holding what \<open>a/x/1.txt\<close> held: the sub-paths \<open>x/1.txt\<close>
  and \<open>y/1.txt\<close> are not kept, and the second object is not copied at all.
\<close>

theorem C1_copy_directory_flattens:
  "fst (Container_copy_directory
      \<lparr>project = p, name = ''c'', metadata_cache = m,
       remote_objects = [(''a/x/1.txt'', o1), (''a/y/1.txt'', o2)],
       remote_headers = h, logged = l\<rparr> ''a'' ''t'' None False) = Inr () \<and>
   remote_objects (snd (Container_copy_directory
      \<lparr>project = p, name = ''c'', metadata_cache = m,
       remote_objects = [(''a/x/1.txt'', o1), (''a/y/1.txt'', o2)],
       remote_headers = h, logged = l\<rparr> ''a'' ''t'' None False))
   = [(''a/x/1.txt'', o1), (''a/y/1.txt'', o2), (''t/1.txt'', o1)]"
  by (simp add: copy_directory_eval)

section \<open>Authentication\<close>

text \<open>
  C8, as the code has it: the constructor of \<open>Archive\<close> authenticates with the token
  alone when one is given, and with the username and the password otherwise. When the
  session raises \<open>AuthorizationFailure\<close> the constructor raises the exception for an
  incorrect username, when it raises \<open>IndexError\<close> the one for an incorrect password; the
  two differ in their message. Every other exception of the session reaches the caller
  unchanged. With a token, neither the username nor the password has any part in the
  outcome.
\<close>

theorem C8_archive_init_failures:
  "(g (Archive_auth env gp u t) = Inl AuthorizationFailure \<longrightarrow>
      Archive_init g pl env gp u t =
        Inl (Exception ''Couldn't authenticate! Incorrect username.'')) \<and>
   (g (Archive_auth env gp u t) = Inl IndexError \<longrightarrow>
      Archive_init g pl env gp u t =
        Inl (Exception ''Couldn't authenticate! Incorrect password.'')) \<and>
   (g (Archive_auth env gp u t) = Inl e \<and> e \<noteq> AuthorizationFailure \<and> e \<noteq> IndexError \<longrightarrow>
      Archive_init g pl env gp u t = Inl e) \<and>
   Exception ''Couldn't authenticate! Incorrect username.'' \<noteq>
     Exception ''Couldn't authenticate! Incorrect password.'' \<and>
   (\<not> truthy t \<longrightarrow>
      Archive_auth env gp u t = V3Saml2Password u (if \<not> truthy env then gp else the env)) \<and>
   (truthy t \<longrightarrow>
      Archive_auth env gp u t = Token (the t) \<and>
      map_sum id user_id (Archive_init g pl env gp u t) =
        map_sum id user_id (Archive_init g pl env' gp' u' t))"
proof (intro conjI impI)
  assume "g (Archive_auth env gp u t) = Inl e \<and> e \<noteq> AuthorizationFailure \<and> e \<noteq> IndexError"
  then show "Archive_init g pl env gp u t = Inl e"
    by (cases e) (simp_all add: Archive_init_def)
next
  assume tok: "truthy t"
  then have same: "Archive_auth env gp u t = Archive_auth env' gp' u' t"
    by (simp add: Archive_auth_def)
  show "map_sum id user_id (Archive_init g pl env gp u t) =
        map_sum id user_id (Archive_init g pl env' gp' u' t)"
    unfolding Archive_init_def same
    by (simp split: sum.splits exn.splits)
qed (simp_all add: Archive_init_def Archive_auth_def)

text \<open>
  With the example identity client, the unknown user \<open>mallory\<close> is refused when
  authenticating by password and accepted with the valid token; a rejected token reaches
  the caller as the client's own exception, with neither message.
\<close>

theorem C8_token_ignores_username:
  "Archive_init identity_example (\<lambda>uid. [(''proj'', ''p1'')]) None ''secret'' ''mallory'' None =
     Inl (Exception ''Couldn't authenticate! Incorrect username.'') \<and>
   Archive_init identity_example (\<lambda>uid. [(''proj'', ''p1'')]) None ''secret'' ''mallory''
       (Some ''tok'') =
     Inr \<lparr>username = ''mallory'', user_id = ''u1'', ks_projects = [(''proj'', ''p1'')]\<rparr> \<and>
   Archive_init identity_example (\<lambda>uid. [(''proj'', ''p1'')]) None ''secret'' ''alice''
       (Some ''expired'') = Inl Unauthorized"
  by (simp add: Archive_init_def Archive_auth_def identity_example_def)

theorem C8_archive_init_failures_witness:
  "Archive_init identity_example (\<lambda>uid. [(''proj'', ''p1'')]) None ''secret'' ''mallory'' None =
     Inl (Exception ''Couldn't authenticate! Incorrect username.'') \<and>
   Archive_init identity_example (\<lambda>uid. [(''proj'', ''p1'')]) (Some ''wrong'') ''typed'' ''alice'' None =
     Inl (Exception ''Couldn't authenticate! Incorrect password.'') \<and>
   Archive_init identity_example (\<lambda>uid. [(''proj'', ''p1'')]) None ''secret'' ''alice''
       (Some ''expired'') = Inl Unauthorized \<and>
   Archive_init identity_example (\<lambda>uid. [(''proj'', ''p1'')]) None ''secret'' ''alice'' None =
     Inr \<lparr>username = ''alice'', user_id = ''u1'', ks_projects = [(''proj'', ''p1'')]\<rparr> \<and>
   map_sum id user_id
       (Archive_init identity_example (\<lambda>uid. [(''proj'', ''p1'')]) None ''secret'' ''alice''
          (Some ''tok'')) =
     map_sum id user_id
       (Archive_init identity_example (\<lambda>uid. [(''proj'', ''p1'')]) (Some ''x'') ''y'' ''mallory''
          (Some ''tok''))"
  using C8_archive_init_failures [of identity_example None "''secret''" "''mallory''" None
      "\<lambda>uid. [(''proj'', ''p1'')]" Unauthorized None "''secret''" "''mallory''"]
    C8_archive_init_failures [of identity_example "Some ''wrong''" "''typed''" "''alice''" None
      "\<lambda>uid. [(''proj'', ''p1'')]" Unauthorized None "''secret''" "''mallory''"]
    C8_archive_init_failures [of identity_example None "''secret''" "''alice''" "Some ''expired''"
      "\<lambda>uid. [(''proj'', ''p1'')]" Unauthorized None "''secret''" "''mallory''"]
    C8_archive_init_failures [of identity_example None "''secret''" "''alice''" "Some ''tok''"
      "\<lambda>uid. [(''proj'', ''p1'')]" Unauthorized "Some ''x''" "''y''" "''mallory''"]
  by (simp add: Archive_init_def Archive_auth_def identity_example_def)

section \<open>Copying and moving one object\<close>

lemma map_of_store_put: "map_of (store_put k v xs) = (map_of xs)(k \<mapsto> v)"
  by (induction xs) (auto simp: fun_upd_twist)

lemma join_step_relative:
  "\<not> startswith b ''/'' \<Longrightarrow>
   join_step path b = (if path = [] \<or> last path = CHR ''/'' then path @ b else path @ ''/'' @ b)"
  by (cases path rule: rev_cases) (auto simp: join_step_def endswith_def startswith_def)

lemma takeWhile_until: "c \<notin> set n \<Longrightarrow> takeWhile (\<lambda>x. x \<noteq> c) (n @ c # k) = n"
  by (induction n) auto

lemma dropWhile_until: "c \<notin> set n \<Longrightarrow> dropWhile (\<lambda>x. x \<noteq> c) (n @ c # k) = c # k"
  by (induction n) auto

lemma parse_destination_in_container:
  assumes "n \<noteq> []" and "CHR ''/'' \<notin> set n" and "k \<noteq> []"
  shows "parse_destination (n @ ''/'' @ k) = Some (n, k)"
proof -
  have ns: "\<not> startswith (n @ ''/'' @ k) ''/''"
    using assms(1,2) by (cases n) (auto simp: startswith_def)
  have tw: "takeWhile (\<lambda>x. x \<noteq> CHR ''/'') (n @ ''/'' @ k) = n"
    using assms(2) by (simp add: takeWhile_until)
  have dw: "dropWhile (\<lambda>x. x \<noteq> CHR ''/'') (n @ ''/'' @ k) = ''/'' @ k"
    using assms(2) by (simp add: dropWhile_until)
  show ?thesis
    using ns tw dw assms(1,3) by (simp add: parse_destination_def Let_def del: append.simps)
qed

lemma destination_key:
  assumes "n \<noteq> []" and "CHR ''/'' \<notin> set n"
    and "\<not> startswith target ''/''" and "\<not> startswith nn ''/''"
    and "os_path_join target [nn] \<noteq> []"
  shows "parse_destination (os_path_join n [target, nn]) = Some (n, os_path_join target [nn])"
proof -
  have l: "last n \<noteq> CHR ''/''" using assms(1,2) by (metis last_in_set)
  have s1: "join_step n target = n @ ''/'' @ target"
    using assms(1,3) l by (simp add: join_step_relative)
  have s2: "join_step (n @ ''/'' @ target) nn = n @ ''/'' @ join_step target nn"
    using assms(4) by (cases target rule: rev_cases) (auto simp: join_step_relative)
  have "os_path_join n [target, nn] = n @ ''/'' @ os_path_join target [nn]"
    using s1 s2 by (simp add: os_path_join_def)
  then show ?thesis
    using parse_destination_in_container[OF assms(1,2,5)] by simp
qed

lemma head_object_isl: "isl (head_object self k) \<longleftrightarrow> map_of (remote_objects self) k = None"
  by (simp add: head_object_def split: option.splits)

lemma guard_aborts:
  assumes "map_of (remote_objects self) (os_path_join target_directory
             [if \<not> truthy new_name then os_path_basename file_path else the new_name]) \<noteq> None"
  shows "Container_copy self file_path target_directory new_name False =
           (Inr (), logging_error target_exists_message self)"
    and "Container_move self file_path target_directory new_name False =
           (Inr (), logging_error target_exists_message self)"
  using assms by (simp_all add: Container_copy_def Container_move_def head_object_isl Let_def)

lemma copy_object_ok:
  assumes "parse_destination destination = Some (Container.name self, k)"
    and "map_of (remote_objects self) obj = Some ob"
  shows "copy_object self obj destination =
           Inr (self\<lparr>remote_objects := store_put k ob (remote_objects self)\<rparr>)"
  using assms by (simp add: copy_object_def)

lemma copy_object_frame:
  assumes "copy_object self obj destination = Inr self'"
    and "parse_destination destination \<noteq> Some (Container.name self, k')"
  shows "map_of (remote_objects self') k' = map_of (remote_objects self) k'"
proof (cases "parse_destination destination")
  case None
  with assms(1) show ?thesis by (simp add: copy_object_def)
next
  case (Some ck)
  obtain c k where ck: "ck = (c, k)" by (cases ck)
  show ?thesis
  proof (cases "map_of (remote_objects self) obj")
    case None
    with assms(1) Some ck show ?thesis by (simp add: copy_object_def)
  next
    case (Some ob)
    from assms(1) \<open>parse_destination destination = Some ck\<close> ck Some
    have c: "c = Container.name self"
      and s': "self' = self\<lparr>remote_objects := store_put k ob (remote_objects self)\<rparr>"
      by (auto simp: copy_object_def split: if_splits)
    from assms(2) \<open>parse_destination destination = Some ck\<close> ck c have "k \<noteq> k'" by auto
    with s' show ?thesis by (simp add: map_of_store_put)
  qed
qed

lemma Container_copy_overwrite:
  assumes "parse_destination (os_path_join (Container.name self) [target_directory,
             if \<not> truthy new_name then os_path_basename file_path else the new_name]) =
           Some (Container.name self, k)"
    and "map_of (remote_objects self) file_path = Some ob"
  shows "Container_copy self file_path target_directory new_name True =
     (Inr (), logging_info ''Successfully copied the object''
                (self\<lparr>remote_objects := store_put k ob (remote_objects self)\<rparr>))"
  using copy_object_ok [OF assms] by (simp add: Container_copy_def Let_def)

lemma Container_move_overwrite:
  assumes "parse_destination (os_path_join (Container.name self) [target_directory,
             if \<not> truthy new_name then os_path_basename file_path else the new_name]) =
           Some (Container.name self, k)"
    and "map_of (remote_objects self) file_path = Some ob"
    and "overwrite \<or> map_of (remote_objects self) (os_path_join target_directory
             [if \<not> truthy new_name then os_path_basename file_path else the new_name]) = None"
  shows "Container_move self file_path target_directory new_name overwrite =
     (Inr (), logging_info
                (if os_path_dirname file_path = target_directory
                 then ''Successfully renamed the object''
                 else ''Successfully moved the object'')
                (self\<lparr>remote_objects :=
                    AList.delete file_path (store_put k ob (remote_objects self))\<rparr>))"
proof -
  let ?s = "self\<lparr>remote_objects := store_put k ob (remote_objects self)\<rparr>"
  have present: "map_of (remote_objects ?s) file_path \<noteq> None"
    using assms(2) by (simp add: map_of_store_put)
  then obtain ob' where ob': "map_of (store_put k ob (remote_objects self)) file_path = Some ob'"
    by auto
  have del: "delete_object ?s file_path =
      Inr (?s\<lparr>remote_objects := AList.delete file_path (remote_objects ?s)\<rparr>)"
    using ob' by (simp add: delete_object_def)
  show ?thesis
    using copy_object_ok [OF assms(1,2)] del assms(3)
    by (auto simp: Container_move_def Let_def head_object_isl)
qed

text \<open>
  C2, as the code has it: \<open>copy\<close> and \<open>move\<close> of one object under the overwrite policy. With
  overwrite not permitted and the destination key present, the call writes nothing (the
  objects of the container are unchanged), logs the error that the target already exists
  and returns \<open>None\<close>: the \<open>IOError\<close> is caught inside the method and no exception reaches
  the caller. With overwrite permitted, a source that exists and a destination inside the
  container (a container name without slash, relative target directory and new name), the
  call returns normally and the destination holds the source's object; for \<open>move\<close> this
  needs the destination to differ from the source, which is deleted afterwards.
\<close>

theorem C2_overwrite_guard:
  assumes "nn = (if \<not> truthy new_name then os_path_basename file_path else the new_name)"
    and "k = os_path_join target_directory [nn]"
  shows "(map_of (remote_objects self) k \<noteq> None \<longrightarrow>
       fst (Container_copy self file_path target_directory new_name False) = Inr () \<and>
       remote_objects (snd (Container_copy self file_path target_directory new_name False)) =
         remote_objects self \<and>
       logged (snd (Container_copy self file_path target_directory new_name False)) =
         logged self @ [ERROR target_exists_message] \<and>
       fst (Container_move self file_path target_directory new_name False) = Inr () \<and>
       remote_objects (snd (Container_move self file_path target_directory new_name False)) =
         remote_objects self \<and>
       logged (snd (Container_move self file_path target_directory new_name False)) =
         logged self @ [ERROR target_exists_message]) \<and>
     (Container.name self \<noteq> [] \<and> CHR ''/'' \<notin> set (Container.name self) \<and>
      \<not> startswith target_directory ''/'' \<and> \<not> startswith nn ''/'' \<and> k \<noteq> [] \<and>
      map_of (remote_objects self) file_path = Some ob \<longrightarrow>
       fst (Container_copy self file_path target_directory new_name True) = Inr () \<and>
       map_of (remote_objects (snd (Container_copy self file_path target_directory new_name True))) k
         = Some ob \<and>
       fst (Container_move self file_path target_directory new_name True) = Inr () \<and>
       (k \<noteq> file_path \<longrightarrow>
        map_of (remote_objects (snd (Container_move self file_path target_directory new_name True))) k
          = Some ob))"
proof (intro conjI impI)
  assume ex: "map_of (remote_objects self) k \<noteq> None"
  then have g: "map_of (remote_objects self) (os_path_join target_directory
             [if \<not> truthy new_name then os_path_basename file_path else the new_name]) \<noteq> None"
    using assms by simp
  show "fst (Container_copy self file_path target_directory new_name False) = Inr ()"
    "remote_objects (snd (Container_copy self file_path target_directory new_name False)) =
         remote_objects self"
    "logged (snd (Container_copy self file_path target_directory new_name False)) =
         logged self @ [ERROR target_exists_message]"
    "fst (Container_move self file_path target_directory new_name False) = Inr ()"
    "remote_objects (snd (Container_move self file_path target_directory new_name False)) =
         remote_objects self"
    "logged (snd (Container_move self file_path target_directory new_name False)) =
         logged self @ [ERROR target_exists_message]"
    using guard_aborts [OF g] by (simp_all add: logging_error_def)
next
  assume h: "Container.name self \<noteq> [] \<and> CHR ''/'' \<notin> set (Container.name self) \<and>
      \<not> startswith target_directory ''/'' \<and> \<not> startswith nn ''/'' \<and> k \<noteq> [] \<and>
      map_of (remote_objects self) file_path = Some ob"
  then have "parse_destination (os_path_join (Container.name self) [target_directory, nn]) =
      Some (Container.name self, k)"
    using destination_key [of "Container.name self" target_directory nn] assms(2) by simp
  then have d: "parse_destination (os_path_join (Container.name self) [target_directory,
             if \<not> truthy new_name then os_path_basename file_path else the new_name]) =
           Some (Container.name self, k)"
    using assms(1) by simp
  from h have src: "map_of (remote_objects self) file_path = Some ob" by simp
  show "fst (Container_copy self file_path target_directory new_name True) = Inr ()"
    "map_of (remote_objects (snd (Container_copy self file_path target_directory new_name True))) k
         = Some ob"
    using Container_copy_overwrite [OF d src]
    by (simp_all add: logging_info_def map_of_store_put)
  have mv: "Container_move self file_path target_directory new_name True =
     (Inr (), logging_info
                (if os_path_dirname file_path = target_directory
                 then ''Successfully renamed the object''
                 else ''Successfully moved the object'')
                (self\<lparr>remote_objects :=
                    AList.delete file_path (store_put k ob (remote_objects self))\<rparr>))"
    using Container_move_overwrite [OF d src] by simp
  show "fst (Container_move self file_path target_directory new_name True) = Inr ()"
    using mv by simp
  show "map_of (remote_objects (snd (Container_move self file_path target_directory new_name True))) k
          = Some ob" if "k \<noteq> file_path"
    using mv that by (simp add: logging_info_def delete_conv' map_of_store_put)
qed

lemmas copy_eval =
  Container_copy_def Container_move_def copy_object_def delete_object_def head_object_def parse_destination_def
  os_path_join_def join_step_def os_path_basename_def os_path_dirname_def startswith_def endswith_def
  logging_info_def logging_error_def Let_def

text \<open>
  The conflict scenario: \<open>x/new.txt\<close> exists, and \<open>copy("src.txt", "x", "new.txt")\<close>
  without overwrite returns normally, as \<open>move\<close> does; no error is raised to the caller.
\<close>

theorem C2_conflict_not_raised:
  "map_of (remote_objects conflict_example) ''x/new.txt'' \<noteq> None \<and>
   fst (Container_copy conflict_example ''src.txt'' ''x'' (Some ''new.txt'') False) = Inr () \<and>
   fst (Container_move conflict_example ''src.txt'' ''x'' (Some ''new.txt'') False) = Inr ()"
  by (simp add: copy_eval conflict_example_def)

theorem C2_overwrite_guard_witness:
  "map_of (remote_objects conflict_example) ''x/new.txt'' \<noteq> None \<and>
   fst (Container_copy conflict_example ''src.txt'' ''x'' (Some ''new.txt'') False) = Inr () \<and>
   remote_objects (snd (Container_copy conflict_example ''src.txt'' ''x'' (Some ''new.txt'') False)) = remote_objects conflict_example \<and>
   fst (Container_copy conflict_example ''src.txt'' ''x'' (Some ''new.txt'') True) = Inr () \<and>
   map_of (remote_objects (snd (Container_copy conflict_example ''src.txt'' ''x'' (Some ''new.txt'') True))) ''x/new.txt''
     = Some \<lparr>object_bytes = ''new'', object_content_type = ''text/plain''\<rparr> \<and>
   map_of (remote_objects (snd (Container_move conflict_example ''src.txt'' ''x'' (Some ''new.txt'') True))) ''x/new.txt''
     = Some \<lparr>object_bytes = ''new'', object_content_type = ''text/plain''\<rparr>"
  using C2_overwrite_guard [of "''new.txt''" "Some ''new.txt''" "''src.txt''" "''x/new.txt''" "''x''" conflict_example
     "\<lparr>object_bytes = ''new'', object_content_type = ''text/plain''\<rparr>"]
  by (simp add: conflict_example_def os_path_join_def join_step_def startswith_def endswith_def)

lemma list_contains: "k \<in> File.name ` set (fst (Container_list s)) \<longleftrightarrow> map_of (remote_objects s) k \<noteq> None"
proof -
  have "File.name ` set (fst (Container_list s)) = fst ` set (remote_objects s)"
    using Container_list_names [of s] by (metis set_map)
  then show ?thesis by (simp add: map_of_eq_None_iff)
qed

lemma Container_move_missing_source:
  assumes "map_of (remote_objects s) file_path = None"
  shows "fst (Container_move s file_path target_directory new_name overwrite) = Inr () \<and>
     remote_objects (snd (Container_move s file_path target_directory new_name overwrite)) =
       remote_objects s \<and>
     (\<exists>m. logged (snd (Container_move s file_path target_directory new_name overwrite)) =
       logged s @ [ERROR m])"
proof -
  have c: "\<exists>e. copy_object s file_path d = Inl e" for d
    using assms by (simp add: copy_object_def split: option.splits prod.splits)
  show ?thesis
  proof (cases "\<not> overwrite \<and> \<not> isl (head_object s (os_path_join target_directory
             [if \<not> truthy new_name then os_path_basename file_path else the new_name]))")
    case True
    then show ?thesis by (simp add: Container_move_def Let_def logging_error_def)
  next
    case False
    obtain e where "copy_object s file_path (os_path_join (Container.name s) [target_directory,
        if \<not> truthy new_name then os_path_basename file_path else the new_name]) = Inl e"
      using c by blast
    with False show ?thesis
      by (auto simp: Container_move_def Let_def logging_error_def)
  qed
qed

text \<open>
  C3, as the code has it: \<open>move\<close> of an object \<open>a\<close> that exists to a destination key \<open>k\<close>
  inside the container, different from \<open>a\<close> and either absent or allowed to be
  overwritten. The call returns normally; the listing afterwards contains \<open>k\<close>, holding
  what \<open>a\<close> held, and no longer contains \<open>a\<close>. The second identical call also returns
  normally: it raises nothing, logs an error and leaves the objects as they were.
\<close>

theorem C3_move_then_retry:
  assumes "Container.name self \<noteq> []" and "CHR ''/'' \<notin> set (Container.name self)"
    and "\<not> startswith target_directory ''/''" and "\<not> startswith nn ''/''"
    and "nn = (if \<not> truthy new_name then os_path_basename a else the new_name)"
    and "k = os_path_join target_directory [nn]" and "k \<noteq> []" and "k \<noteq> a"
    and "map_of (remote_objects self) a = Some ob"
    and "overwrite \<or> map_of (remote_objects self) k = None"
    and "s1 = snd (Container_move self a target_directory new_name overwrite)"
    and "s2 = snd (Container_move s1 a target_directory new_name overwrite)"
  shows "fst (Container_move self a target_directory new_name overwrite) = Inr () \<and>
     k \<in> File.name ` set (fst (Container_list s1)) \<and>
     a \<notin> File.name ` set (fst (Container_list s1)) \<and>
     map_of (remote_objects s1) k = Some ob \<and>
     fst (Container_move s1 a target_directory new_name overwrite) = Inr () \<and>
     remote_objects s2 = remote_objects s1 \<and>
     (\<exists>m. logged s2 = logged s1 @ [ERROR m])"
proof -
  have "parse_destination (os_path_join (Container.name self) [target_directory, nn]) =
      Some (Container.name self, k)"
    using destination_key [OF assms(1,2,3,4)] assms(6,7) by simp
  then have d: "parse_destination (os_path_join (Container.name self) [target_directory,
             if \<not> truthy new_name then os_path_basename a else the new_name]) =
           Some (Container.name self, k)"
    using assms(5) by simp
  have g: "overwrite \<or> map_of (remote_objects self) (os_path_join target_directory
             [if \<not> truthy new_name then os_path_basename a else the new_name]) = None"
    using assms(5,6,10) by simp
  have mv: "Container_move self a target_directory new_name overwrite =
     (Inr (), logging_info
                (if os_path_dirname a = target_directory
                 then ''Successfully renamed the object''
                 else ''Successfully moved the object'')
                (self\<lparr>remote_objects := AList.delete a (store_put k ob (remote_objects self))\<rparr>))"
    by (rule Container_move_overwrite [OF d assms(9) g])
  have o1: "remote_objects s1 = AList.delete a (store_put k ob (remote_objects self))"
    using mv assms(11) by (simp add: logging_info_def)
  have k1: "map_of (remote_objects s1) k = Some ob"
    using o1 assms(8) by (simp add: delete_conv' map_of_store_put)
  have a1: "map_of (remote_objects s1) a = None"
    using o1 by (simp add: delete_conv')
  show ?thesis
    using mv k1 a1 Container_move_missing_source [OF a1, of target_directory new_name overwrite]
      assms(12)
    by (simp add: list_contains)
qed

text \<open>
  Three scenarios. After \<open>move("a.txt", "b")\<close> the source is gone, and the second
  identical call returns \<open>None\<close> instead of raising. When the destination exists and
  overwrite is not permitted, \<open>move\<close> leaves the source in the listing. When the
  destination is the source itself and overwrite is permitted, the object is copied onto
  itself and then deleted, so the listing holds neither.
\<close>

theorem C3_retry_returns_normally:
  "map_of (remote_objects (snd (Container_move move_example ''a.txt'' ''b'' None False)))
     ''a.txt'' = None \<and>
   fst (Container_move (snd (Container_move move_example ''a.txt'' ''b'' None False))
          ''a.txt'' ''b'' None False) = Inr () \<and>
   map_of (remote_objects
       (snd (Container_move conflict_example ''src.txt'' ''x'' (Some ''new.txt'') False)))
     ''src.txt'' \<noteq> None \<and>
   remote_objects (snd (Container_move move_example ''a.txt'' [] None True)) = []"
  by (simp add: copy_eval move_example_def conflict_example_def)

theorem C3_move_then_retry_witness:
  "map fst (remote_objects (snd (Container_move move_example ''a.txt'' ''b'' None False))) = [''b/a.txt''] \<and>
   ''b/a.txt'' \<in> File.name ` set (fst (Container_list (snd (Container_move move_example ''a.txt'' ''b'' None False)))) \<and>
   ''a.txt'' \<notin> File.name ` set (fst (Container_list (snd (Container_move move_example ''a.txt'' ''b'' None False)))) \<and>
   fst (Container_move (snd (Container_move move_example ''a.txt'' ''b'' None False)) ''a.txt'' ''b'' None False) = Inr () \<and>
   remote_objects (snd (Container_move (snd (Container_move move_example ''a.txt'' ''b'' None False)) ''a.txt'' ''b'' None False))
     = remote_objects (snd (Container_move move_example ''a.txt'' ''b'' None False))"
  using C3_move_then_retry [of move_example "''b''" "''a.txt''" None "''a.txt''" "''b/a.txt''"
      "\<lparr>object_bytes = ''data'', object_content_type = ''text/plain''\<rparr>" False
      "snd (Container_move move_example ''a.txt'' ''b'' None False)"
      "snd (Container_move (snd (Container_move move_example ''a.txt'' ''b'' None False)) ''a.txt'' ''b'' None False)"]
  by (simp add: copy_eval move_example_def)

section \<open>File.copy\<close>

lemma Container_copy_never_raises: "fst (Container_copy c fp t nn ow) = Inr ()"
  by (simp add: Container_copy_def Let_def split: sum.splits)

lemma Container_copy_frame:
  assumes "parse_destination (os_path_join (Container.name c) [t,
             if \<not> truthy new_name then os_path_basename fp else the new_name]) \<noteq>
           Some (Container.name c, k)"
  shows "map_of (remote_objects (snd (Container_copy c fp t new_name ow))) k =
         map_of (remote_objects c) k"
proof -
  let ?d = "os_path_join (Container.name c) [t,
             if \<not> truthy new_name then os_path_basename fp else the new_name]"
  show ?thesis
  proof (cases "copy_object c fp ?d")
    case (Inl e)
    then show ?thesis
      by (simp add: Container_copy_def Let_def logging_info_def logging_error_def)
  next
    case (Inr c')
    have "map_of (remote_objects c') k = map_of (remote_objects c) k"
      by (rule copy_object_frame [OF Inr assms])
    with Inr show ?thesis
      by (simp add: Container_copy_def Let_def logging_info_def logging_error_def)
  qed
qed

text \<open>
  C9: \<open>File.copy\<close> of a file that has an owning container is the container's \<open>copy\<close>
  with the file's own directory as the target, whatever \<open>target_directory\<close> is passed:
  two calls that differ only in that argument give the same result, and no key other than
  the destination below the file's own directory is written.
\<close>

theorem C9_File_copy_ignores_target_directory:
  assumes "container f = Some owner"
  shows "File_copy f c target_directory new_name overwrite =
       Container_copy c (File.name f) (os_path_dirname (File.name f)) new_name overwrite \<and>
     File_copy f c target_directory new_name overwrite =
       File_copy f c other_directory new_name overwrite \<and>
     (parse_destination (os_path_join (Container.name c) [os_path_dirname (File.name f),
          if \<not> truthy new_name then os_path_basename (File.name f) else the new_name]) \<noteq>
        Some (Container.name c, k) \<longrightarrow>
      map_of (remote_objects (snd (File_copy f c target_directory new_name overwrite))) k =
        map_of (remote_objects c) k)"
  using assms Container_copy_frame [of c "os_path_dirname (File.name f)" new_name "File.name f" k overwrite]
  by (simp add: File_copy_def)

theorem C9_File_copy_ignores_target_directory_witness:
  "(let f = \<lparr>File.name = ''a.txt'', bytes = 4, content_type = ''text/plain'', container = Some ''c''\<rparr>
    in File_copy f move_example ''backup'' (Some ''b.txt'') False =
         Container_copy move_example ''a.txt'' '''' (Some ''b.txt'') False \<and>
       map fst (remote_objects (snd (File_copy f move_example ''backup'' (Some ''b.txt'') False))) =
         [''a.txt'', ''b.txt''] \<and>
       map_of (remote_objects (snd (File_copy f move_example ''backup'' (Some ''b.txt'') False)))
         ''backup/b.txt'' = None)"
  using C9_File_copy_ignores_target_directory [of
      "\<lparr>File.name = ''a.txt'', bytes = 4, content_type = ''text/plain'', container = Some ''c''\<rparr>"
      "''c''" move_example "''backup''" "Some ''b.txt''" False "''backup''" "''backup/b.txt''"]
  by (simp add: copy_eval move_example_def File_copy_def)


section \<open>Uploading a batch\<close>

lemma upload_loop_append:
  assumes "upload_loop files g self pre rd False acc = (Inr (Some acc'), self')"
  shows "upload_loop files g self (pre @ rest) rd False acc =
         upload_loop files g self' rest rd False acc'"
  using assms
proof (induction pre arbitrary: self acc)
  case Nil
  then show ?case by simp
next
  case (Cons p pre)
  let ?rp = "os_path_join rd [os_path_basename p]"
  from Cons.prems have probe: "isl (head_object self ?rp)"
    by (auto simp: Let_def split: if_splits)
  from Cons.prems probe obtain data where data: "files p = Some data"
    by (cases "files p") (auto simp: Let_def)
  from Cons.prems probe data
  have "upload_loop files g (put_object g self ?rp data) pre rd False (acc @ [?rp]) =
      (Inr (Some acc'), self')"
    by (simp add: Let_def)
  from Cons.IH [OF this] probe data show ?case
    by (simp add: Let_def)
qed

text \<open>
  C10: \<open>upload\<close> without overwrite. When the paths before \<open>p\<close> upload without
  conflict and the remote path of \<open>p\<close> then exists, the call on the whole batch returns
  \<open>None\<close>, not the list of uploaded paths, and the container holds what the paths before
  \<open>p\<close> left there: neither \<open>p\<close> nor any later path is uploaded.
\<close>

theorem C10_upload_aborts_batch:
  assumes "Container_upload files g self (Many pre) rd False = (Inr (Some uploaded), self')"
    and "map_of (remote_objects self') (os_path_join rd [os_path_basename p]) \<noteq> None"
  shows "fst (Container_upload files g self (Many (pre @ p # post)) rd False) = Inr None \<and>
     remote_objects (snd (Container_upload files g self (Many (pre @ p # post)) rd False)) =
       remote_objects self'"
proof -
  have "upload_loop files g self (pre @ p # post) rd False [] =
      upload_loop files g self' (p # post) rd False uploaded"
    using assms(1) by (simp add: Container_upload_def upload_loop_append)
  moreover have "\<not> isl (head_object self' (os_path_join rd [os_path_basename p]))"
    using assms(2) by (simp add: head_object_def split: option.splits)
  ultimately show ?thesis
    by (simp add: Container_upload_def Let_def logging_error_def)
qed

lemmas upload_eval = Container_upload_def put_object_def head_object_def
  os_path_join_def join_step_def os_path_basename_def startswith_def endswith_def
  logging_error_def Let_def

theorem C10_upload_aborts_batch_witness:
  "(let files = map_of [(''/tmp/a.txt'', ''A''), (''/tmp/b.txt'', ''B''), (''/tmp/c.txt'', ''C'')];
        g = (\<lambda>k. ''application/octet-stream'');
        c = \<lparr>project = \<lparr>project_id = ''p1'', users = []\<rparr>, name = ''c'', metadata_cache = None,
             remote_objects =
               [(''up/b.txt'', \<lparr>object_bytes = ''old'', object_content_type = ''text/plain''\<rparr>)],
             remote_headers = [], logged = []\<rparr>;
        r = Container_upload files g c (Many [''/tmp/a.txt'', ''/tmp/b.txt'', ''/tmp/c.txt'']) ''up'' False
    in fst r = Inr None \<and>
       map fst (remote_objects (snd r)) = [''up/a.txt'', ''up/b.txt''] \<and>
       map_of (remote_objects (snd r)) ''up/b.txt'' =
         Some \<lparr>object_bytes = ''old'', object_content_type = ''text/plain''\<rparr>)"
  using C10_upload_aborts_batch [of
      "map_of [(''/tmp/a.txt'', ''A''), (''/tmp/b.txt'', ''B''), (''/tmp/c.txt'', ''C'')]"
      "\<lambda>k. ''application/octet-stream''"
      "\<lparr>project = \<lparr>project_id = ''p1'', users = []\<rparr>, name = ''c'', metadata_cache = None,
        remote_objects =
          [(''up/b.txt'', \<lparr>object_bytes = ''old'', object_content_type = ''text/plain''\<rparr>)],
        remote_headers = [], logged = []\<rparr>"
      "[''/tmp/a.txt'']" "''up''" "[''up/a.txt'']"
      "\<lparr>project = \<lparr>project_id = ''p1'', users = []\<rparr>, name = ''c'', metadata_cache = None,
        remote_objects =
          [(''up/a.txt'', \<lparr>object_bytes = ''A'', object_content_type = ''application/octet-stream''\<rparr>),
           (''up/b.txt'', \<lparr>object_bytes = ''old'', object_content_type = ''text/plain''\<rparr>)],
        remote_headers = [], logged = []\<rparr>"
      "''/tmp/b.txt''" "[''/tmp/c.txt'']"]
  by (simp add: upload_eval)

section \<open>Reading an object\<close>

text \<open>
  C6: \<open>read\<close> of an object that exists. With \<open>decode\<close> false or empty the raw bytes
  come back whatever the content type is. With an encoding, the content is decoded exactly
  when the content type is textual (its part before the first slash is \<open>text\<close>, or it
  is \<open>application/json\<close>, or it is in \<open>accept\<close>), and is returned raw otherwise. A
  decoded result is what decoding the raw bytes of the undecoded read with the same
  encoding gives.
\<close>

theorem C6_read:
  assumes "map_of (remote_objects self) file_path = Some ob"
  shows "Container_read decode_bytes self file_path None accept = Inr (Raw (object_bytes ob)) \<and>
     Container_read decode_bytes self file_path (Some []) accept = Inr (Raw (object_bytes ob)) \<and>
     (encoding \<noteq> [] \<longrightarrow>
        Container_read decode_bytes self file_path (Some encoding) accept =
          (if hd (str_split CHR ''/'' (object_content_type ob)) = ''text'' \<or>
              object_content_type ob = ''application/json'' \<or>
              object_content_type ob \<in> set accept
           then (case decode_bytes encoding (object_bytes ob) of
                   Inl e \<Rightarrow> Inl e | Inr s \<Rightarrow> Inr (Text s))
           else Inr (Raw (object_bytes ob)))) \<and>
     (encoding \<noteq> [] \<and>
      Container_read decode_bytes self file_path (Some encoding) accept = Inr (Text s) \<longrightarrow>
        (\<exists>raw. Container_read decode_bytes self file_path None accept = Inr (Raw raw) \<and>
               decode_bytes encoding raw = Inr s))"
  using assms
  by (auto simp: Container_read_def get_object_def text_content_types_def Let_def
      split: sum.splits if_splits)

theorem C6_read_witness:
  "(let dec = (\<lambda>enc b. if enc = ''utf-8'' then Inr b else Inl (Exception ''unknown encoding''))
    in Container_read dec read_example ''notes.txt'' (Some ''utf-8'') [] = Inr (Text ''hello'') \<and>
       Container_read dec read_example ''notes.txt'' None [] = Inr (Raw ''hello'') \<and>
       dec ''utf-8'' ''hello'' = Inr ''hello'' \<and>
       Container_read dec read_example ''data.json'' (Some ''utf-8'') [] = Inr (Text ''{}'') \<and>
       Container_read dec read_example ''blob.bin'' (Some ''utf-8'') [] = Inr (Raw ''raw'') \<and>
       Container_read dec read_example ''blob.bin'' (Some ''utf-8'') [''application/octet-stream'']
         = Inr (Text ''raw''))"
  using C6_read [of read_example "''notes.txt''"
      "\<lparr>object_bytes = ''hello'', object_content_type = ''text/plain''\<rparr>"
      "\<lambda>enc b. if enc = ''utf-8'' then Inr b else Inl (Exception ''unknown encoding'')"
      "[]" "''utf-8''" "''hello''"]
  by (simp add: read_example_def Container_read_def get_object_def text_content_types_def Let_def)


section \<open>Granting access\<close>

lemma str_split_nonempty: "str_split c s \<noteq> []"
  by (induction s) (auto split: list.splits)

lemma str_split_no_sep: "c \<notin> set s \<Longrightarrow> str_split c s = [s]"
  by (induction s) auto

lemma str_split_append:
  "c \<notin> set x \<Longrightarrow> str_split c (x @ c # rest) = x # str_split c rest"
  by (induction x) auto

lemma str_split_pieces: "w \<in> set (str_split c s) \<Longrightarrow> c \<notin> set w"
proof (induction s arbitrary: w)
  case Nil
  then show ?case by simp
next
  case (Cons a s)
  show ?case
  proof (cases "a = c")
    case True
    with Cons show ?thesis by auto
  next
    case False
    obtain v vs where sp: "str_split c s = v # vs"
      using str_split_nonempty [of c s] by (cases "str_split c s") auto
    with Cons.prems False have "w = a # v \<or> w \<in> set vs" by auto
    then show ?thesis
    proof
      assume "w = a # v"
      moreover have "c \<notin> set v" using Cons.IH [of v] sp by simp
      ultimately show ?thesis using False by auto
    next
      assume "w \<in> set vs"
      then show ?thesis using Cons.IH [of w] sp by simp
    qed
  qed
qed

lemma str_split_join:
  "xs \<noteq> [] \<Longrightarrow> \<forall>x \<in> set xs. c \<notin> set x \<Longrightarrow> str_split c (str_join [c] xs) = xs"
proof (induction "[c]" xs rule: str_join.induct)
  case 1
  then show ?case by simp
next
  case (2 x)
  then show ?case by (simp add: str_split_no_sep)
next
  case (3 x y ys)
  then show ?case by (simp add: str_split_append)
qed

lemma str_join_nonempty: "e \<in> set xs \<Longrightarrow> e \<noteq> [] \<Longrightarrow> str_join sep xs \<noteq> []"
  by (induction sep xs rule: str_join.induct) auto

lemma entry_split:
  "CHR '':'' \<notin> set pid \<Longrightarrow> CHR '':'' \<notin> set uid \<Longrightarrow>
   str_split CHR '':'' (pid @ '':'' @ uid) = [pid, uid]"
  by (simp add: str_split_append str_split_no_sep)

lemma entry_not_public:
  assumes "CHR '':'' \<notin> set pid" and "pid \<noteq> ''.r''"
  shows "pid @ '':'' @ uid \<noteq> ''.r:*'' \<and> pid @ '':'' @ uid \<noteq> ''.rlistings''"
proof -
  have "takeWhile (\<lambda>x. x \<noteq> CHR '':'') (pid @ '':'' @ uid) = pid"
    using assms(1) by (induction pid) auto
  moreover have "takeWhile (\<lambda>x. x \<noteq> CHR '':'') ''.r:*'' = ''.r''" by simp
  ultimately have "pid @ '':'' @ uid \<noteq> ''.r:*''" using assms(2) by metis
  moreover have "pid @ '':'' @ uid \<noteq> ''.rlistings''"
  proof
    assume eq: "pid @ '':'' @ uid = ''.rlistings''"
    have "CHR '':'' \<in> set (pid @ '':'' @ uid)" by simp
    then have "CHR '':'' \<in> set ''.rlistings''" unfolding eq .
    then show False by simp
  qed
  ultimately show ?thesis by simp
qed

lemma name_map_sound:
  "map_of (foldl (\<lambda>m (k, v). AList.update v k m) acc us) n = Some uid \<Longrightarrow>
   (uid, n) \<in> set us \<or> map_of acc n = Some uid"
proof (induction us arbitrary: acc)
  case Nil
  then show ?case by simp
next
  case (Cons p us)
  obtain k v where p: "p = (k, v)" by (cases p)
  from Cons.prems p have "map_of (foldl (\<lambda>m (k, v). AList.update v k m) (AList.update v k acc) us) n = Some uid"
    by simp
  from Cons.IH [OF this] have "(uid, n) \<in> set us \<or> map_of (AList.update v k acc) n = Some uid" .
  then show ?case using p by (auto simp: update_conv' split: if_splits)
qed

lemma name_map_complete:
  "n \<in> snd ` set us \<or> map_of acc n \<noteq> None \<Longrightarrow>
   map_of (foldl (\<lambda>m (k, v). AList.update v k m) acc us) n \<noteq> None"
proof (induction us arbitrary: acc)
  case Nil
  then show ?case by simp
next
  case (Cons p us)
  obtain k v where p: "p = (k, v)" by (cases p)
  have "n \<in> snd ` set us \<or> map_of (AList.update v k acc) n \<noteq> None"
    using Cons.prems p by (auto simp: update_conv')
  from Cons.IH [OF this] show ?case using p by simp
qed

lemma user_ids_loop_append:
  "user_ids_loop items ip acc = Inr (pub, ids) \<Longrightarrow>
   user_ids_loop (items @ later) ip acc = user_ids_loop later pub ids"
proof (induction items ip acc rule: user_ids_loop.induct)
  case (1 is_public user_ids)
  then show ?case by simp
next
  case (2 item items is_public user_ids)
  show ?case
  proof (cases "item = ''.r:*'' \<or> item = ''.rlistings''")
    case True
    with 2 show ?thesis by simp
  next
    case False
    with "2.prems" obtain p u rest where sp: "str_split CHR '':'' item = p # u # rest"
      by (auto split: list.splits)
    with False "2.prems" have "user_ids_loop items is_public (user_ids @ [u]) = Inr (pub, ids)"
      by simp
    from "2.IH"(2) [OF False sp refl this] False sp show ?thesis by simp
  qed
qed

lemma grant_unknown_user:
  assumes "uname \<notin> snd ` set (users (project self))"
  shows "Container_grant_access self uname mode = (Inl (KeyError uname), self)"
proof -
  have "map_of (foldl (\<lambda>m (k, v). AList.update v k m) [] (users (project self))) uname = None"
  proof (cases "map_of (foldl (\<lambda>m (k, v). AList.update v k m) [] (users (project self))) uname")
    case None
    then show ?thesis .
  next
    case (Some uid)
    from name_map_sound [OF Some] have "(uid, uname) \<in> set (users (project self))" by simp
    then have "uname \<in> snd ` set (users (project self))" by force
    with assms show ?thesis by simp
  qed
  then show ?thesis by (simp add: Container_grant_access_def)
qed

lemma Container_metadata_frame:
  "project (snd (Container_metadata self)) = project self \<and>
   remote_headers (snd (Container_metadata self)) = remote_headers self \<and>
   remote_objects (snd (Container_metadata self)) = remote_objects self"
  by (simp add: Container_metadata_def split: option.splits)

lemma acl_item_pieces:
  assumes "acl_item md key = Entries items" and "item \<in> set items"
  shows "CHR '','' \<notin> set item"
proof (cases "map_of md (''x-container-'' @ key)")
  case None
  with assms show ?thesis by (simp add: acl_item_def)
next
  case (Some h)
  with assms have "items = str_split CHR '','' h"
    by (auto simp: acl_item_def split: if_splits)
  with assms(2) show ?thesis by (simp add: str_split_pieces)
qed

lemma show_names_entry:
  assumes "user_ids_loop items False [] = Inr (pub, ids)"
    and "CHR '':'' \<notin> set pid" and "CHR '':'' \<notin> set uid" and "pid \<noteq> ''.r''"
    and "map_of us uid = Some uname"
  shows "\<exists>names. show_names us (Entries (items @ [pid @ '':'' @ uid])) = Inr (Entries names) \<and>
           uname \<in> set names"
proof -
  have np: "pid @ '':'' @ uid \<noteq> ''.r:*'' \<and> pid @ '':'' @ uid \<noteq> ''.rlistings''"
    by (rule entry_not_public [OF assms(2,4)])
  have sp: "str_split CHR '':'' (pid @ '':'' @ uid) = [pid, uid]"
    by (rule entry_split [OF assms(2,3)])
  have "user_ids_loop (items @ [pid @ '':'' @ uid]) False [] =
      user_ids_loop [pid @ '':'' @ uid] pub ids"
    by (rule user_ids_loop_append [OF assms(1)])
  also have "\<dots> = Inr (pub, ids @ [uid])"
    using np sp by (simp del: append.simps)
  finally have "user_ids_loop (items @ [pid @ '':'' @ uid]) False [] = Inr (pub, ids @ [uid])" .
  then show ?thesis using assms(5) by (simp add: show_names_def del: append.simps)
qed


lemma grant_known_user:
  assumes dict: "distinct (map fst (users (project self)))"
    and present: "uname \<in> snd ` set (users (project self))"
    and mode: "mode = ''read'' \<or> mode = ''write''"
    and other: "other = (if mode = ''read'' then ''write'' else ''read'')"
    and ids: "\<forall>uid \<in> fst ` set (users (project self)). CHR '':'' \<notin> set uid \<and> CHR '','' \<notin> set uid"
    and pid: "CHR '':'' \<notin> set (project_id (project self)) \<and>
              CHR '','' \<notin> set (project_id (project self)) \<and> project_id (project self) \<noteq> ''.r''"
    and seen: "acl_item (fst (Container_metadata self)) mode = Entries items"
    and items_ok: "\<not> isl (user_ids_loop items False [])"
    and other_ok: "\<not> isl (show_names (users (project self)) (acl_item (remote_headers self) other))"
    and s1: "s1 = snd (Container_grant_access self uname mode)"
  shows "\<exists>uid. (uid, uname) \<in> set (users (project self)) \<and>
     fst (Container_grant_access self uname mode) = Inr () \<and>
     metadata_cache s1 = None \<and>
     remote_headers s1 =
       AList.update (''x-container-'' @ mode)
         (str_join '','' (items @ [project_id (project self) @ '':'' @ uid]))
         (remote_headers self) \<and>
     (\<exists>acl names. fst (Container_access_control s1 True) = Inr acl \<and>
        map_of acl mode = Some (Entries names) \<and> uname \<in> set names)"
proof -
  let ?us = "users (project self)"
  let ?pid = "project_id (project self)"
  let ?nm = "foldl (\<lambda>m (k, v). AList.update v k m) [] ?us"
  let ?md = "fst (Container_metadata self)"
  let ?self' = "snd (Container_metadata self)"
  let ?key = "''x-container-'' @ mode"
  have "map_of ?nm uname \<noteq> None"
    using name_map_complete [of uname ?us "[]"] present by simp
  then obtain uid where nm: "map_of ?nm uname = Some uid" by auto
  from name_map_sound [OF nm] have mem: "(uid, uname) \<in> set ?us" by simp
  have look: "map_of ?us uid = Some uname"
    using dict mem by simp
  have uid_ok: "CHR '':'' \<notin> set uid \<and> CHR '','' \<notin> set uid"
    using ids mem by force
  let ?e = "?pid @ '':'' @ uid"
  let ?v = "str_join '','' (items @ [?e])"
  have frame: "project ?self' = project self \<and> remote_headers ?self' = remote_headers self"
    using Container_metadata_frame [of self] by simp
  have ac: "Container_access_control self False =
      (Inr [(''read'', acl_item ?md ''read''), (''write'', acl_item ?md ''write'')], ?self')"
    by (simp add: Container_access_control_def split_def Let_def)
  have sel: "map_of [(''read'', acl_item ?md ''read''), (''write'', acl_item ?md ''write'')] mode =
      Some (Entries items)"
    using mode seen by auto
  have v_ne: "?v \<noteq> []"
    by (rule str_join_nonempty [of ?e]) simp_all
  have grant: "Container_grant_access self uname mode =
      (Inr (), (post_container ?self' [(?key, ?v)])\<lparr>metadata_cache := None\<rparr>)"
    using nm ac sel frame by (simp add: Container_grant_access_def Let_def del: append.simps)
  have hdr: "remote_headers s1 = AList.update ?key ?v (remote_headers self)"
    using grant s1 frame v_ne by (simp add: post_container_def del: append.simps)
  have cache: "metadata_cache s1 = None"
    using grant s1 by (simp add: post_container_def)
  have proj: "project s1 = project self"
    using grant s1 frame by (simp add: post_container_def)
  have md1: "Container_metadata s1 =
      (remote_headers s1, s1\<lparr>metadata_cache := Some (remote_headers s1)\<rparr>)"
    using cache by (simp add: Container_metadata_def head_container_def)
  have commas: "\<forall>x \<in> set (items @ [?e]). CHR '','' \<notin> set x"
    using acl_item_pieces [OF seen] pid uid_ok by auto
  have split_v: "str_split CHR '','' ?v = items @ [?e]"
    using str_split_join [of "items @ [?e]" "CHR '',''"] commas by simp
  have item_mode: "acl_item (remote_headers s1) mode = Entries (items @ [?e])"
    using hdr v_ne split_v by (simp add: acl_item_def update_conv' del: append.simps)
  have key_other: "''x-container-'' @ other \<noteq> ?key"
    using mode other by auto
  have item_other: "acl_item (remote_headers s1) other = acl_item (remote_headers self) other"
    using hdr key_other by (simp add: acl_item_def update_conv' del: append.simps)
  obtain pub ids' where loop: "user_ids_loop items False [] = Inr (pub, ids')"
    using items_ok by (cases "user_ids_loop items False []") auto
  obtain names where names: "show_names ?us (Entries (items @ [?e])) = Inr (Entries names)"
      and inn: "uname \<in> set names"
    using show_names_entry [OF loop, of ?pid uid ?us uname] pid uid_ok look by blast
  obtain w where w: "show_names ?us (acl_item (remote_headers self) other) = Inr w"
    using other_ok by (cases "show_names ?us (acl_item (remote_headers self) other)") auto
  have result: "\<exists>acl. fst (Container_access_control s1 True) = Inr acl \<and>
      map_of acl mode = Some (Entries names)"
  proof (cases "mode = ''read''")
    case True
    then have o: "other = ''write''" using other by simp
    have "fst (Container_access_control s1 True) = Inr [(''read'', Entries names), (''write'', w)]"
      using md1 item_mode item_other names w proj True o
      by (simp add: Container_access_control_def Let_def del: append.simps)
    with True show ?thesis by simp
  next
    case False
    then have m: "mode = ''write''" and o: "other = ''read''" using mode other by auto
    have "fst (Container_access_control s1 True) = Inr [(''read'', w), (''write'', Entries names)]"
      using md1 item_mode item_other names w proj m o
      by (simp add: Container_access_control_def Let_def del: append.simps)
    with m show ?thesis by simp
  qed
  from mem grant hdr cache result inn show ?thesis
    by (intro exI [of _ uid]) auto
qed

text \<open>
  C7, as the code has it: \<open>grant_access\<close>. For a username that is not a value of the project's user map the
  call raises the \<open>KeyError\<close> of the lookup and changes nothing. For a username in the
  map, with a mode of \<open>read\<close> or \<open>write\<close>, identifiers free of the separators of the
  access control format (no colon or comma in the project id and the user ids, the project
  id not the referrer marker \<open>.r\<close>) and access lists that \<open>access_control\<close> can read as
  they stand, the call returns normally, posts one header for the mode, namely the
  entries it saw followed by \<open>project-id:user-id\<close>, and clears the cached metadata; the
  next \<open>access_control()\<close> returns lists in which the username stands under the mode.
\<close>

theorem C7_grant_access:
  "(uname \<notin> snd ` set (users (project self)) \<longrightarrow>
      Container_grant_access self uname mode = (Inl (KeyError uname), self)) \<and>
   (distinct (map fst (users (project self))) \<and>
    uname \<in> snd ` set (users (project self)) \<and>
    (mode = ''read'' \<or> mode = ''write'') \<and>
    (\<forall>uid \<in> fst ` set (users (project self)). CHR '':'' \<notin> set uid \<and> CHR '','' \<notin> set uid) \<and>
    CHR '':'' \<notin> set (project_id (project self)) \<and>
    CHR '','' \<notin> set (project_id (project self)) \<and> project_id (project self) \<noteq> ''.r'' \<and>
    acl_item (fst (Container_metadata self)) mode = Entries items \<and>
    \<not> isl (user_ids_loop items False []) \<and>
    \<not> isl (show_names (users (project self))
             (acl_item (remote_headers self) (if mode = ''read'' then ''write'' else ''read''))) \<longrightarrow>
    (\<exists>uid. (uid, uname) \<in> set (users (project self)) \<and>
       fst (Container_grant_access self uname mode) = Inr () \<and>
       metadata_cache (snd (Container_grant_access self uname mode)) = None \<and>
       remote_headers (snd (Container_grant_access self uname mode)) =
         AList.update (''x-container-'' @ mode)
           (str_join '','' (items @ [project_id (project self) @ '':'' @ uid]))
           (remote_headers self) \<and>
       (\<exists>acl names.
          fst (Container_access_control (snd (Container_grant_access self uname mode)) True) =
            Inr acl \<and>
          map_of acl mode = Some (Entries names) \<and> uname \<in> set names)))"
proof (intro conjI impI)
  assume "uname \<notin> snd ` set (users (project self))"
  then show "Container_grant_access self uname mode = (Inl (KeyError uname), self)"
    by (rule grant_unknown_user)
next
  assume h: "distinct (map fst (users (project self))) \<and>
    uname \<in> snd ` set (users (project self)) \<and>
    (mode = ''read'' \<or> mode = ''write'') \<and>
    (\<forall>uid \<in> fst ` set (users (project self)). CHR '':'' \<notin> set uid \<and> CHR '','' \<notin> set uid) \<and>
    CHR '':'' \<notin> set (project_id (project self)) \<and>
    CHR '','' \<notin> set (project_id (project self)) \<and> project_id (project self) \<noteq> ''.r'' \<and>
    acl_item (fst (Container_metadata self)) mode = Entries items \<and>
    \<not> isl (user_ids_loop items False []) \<and>
    \<not> isl (show_names (users (project self))
             (acl_item (remote_headers self) (if mode = ''read'' then ''write'' else ''read'')))"
  show "\<exists>uid. (uid, uname) \<in> set (users (project self)) \<and>
       fst (Container_grant_access self uname mode) = Inr () \<and>
       metadata_cache (snd (Container_grant_access self uname mode)) = None \<and>
       remote_headers (snd (Container_grant_access self uname mode)) =
         AList.update (''x-container-'' @ mode)
           (str_join '','' (items @ [project_id (project self) @ '':'' @ uid]))
           (remote_headers self) \<and>
       (\<exists>acl names.
          fst (Container_access_control (snd (Container_grant_access self uname mode)) True) =
            Inr acl \<and>
          map_of acl mode = Some (Entries names) \<and> uname \<in> set names)"
  proof (rule grant_known_user [where other = "if mode = ''read'' then ''write'' else ''read''"])
    show "distinct (map fst (users (project self)))" using h by simp
    show "uname \<in> snd ` set (users (project self))" using h by simp
    show "mode = ''read'' \<or> mode = ''write''" using h by simp
    show "\<forall>uid \<in> fst ` set (users (project self)). CHR '':'' \<notin> set uid \<and> CHR '','' \<notin> set uid"
      using h by simp
    show "CHR '':'' \<notin> set (project_id (project self)) \<and>
        CHR '','' \<notin> set (project_id (project self)) \<and> project_id (project self) \<noteq> ''.r''"
      using h by simp
    show "acl_item (fst (Container_metadata self)) mode = Entries items" using h by simp
    show "\<not> isl (user_ids_loop items False [])" using h by simp
    show "\<not> isl (show_names (users (project self))
             (acl_item (remote_headers self) (if mode = ''read'' then ''write'' else ''read'')))"
      using h by simp
  qed simp_all
qed

lemmas acl_eval =
  Container_grant_access_def Container_access_control_def Container_metadata_def
  head_container_def post_container_def acl_item_def show_names_def Let_def

theorem C7_grant_access_witness:
  "Container_grant_access acl_example ''carol'' ''read'' = (Inl (KeyError ''carol''), acl_example) \<and>
   fst (Container_grant_access acl_example ''bob'' ''read'') = Inr () \<and>
   metadata_cache (snd (Container_grant_access acl_example ''bob'' ''read'')) = None \<and>
   remote_headers (snd (Container_grant_access acl_example ''bob'' ''read'')) =
     [(''x-container-read'', ''p1:u1,.r:*,p1:u2'')] \<and>
   fst (Container_access_control (snd (Container_grant_access acl_example ''bob'' ''read'')) True) =
     Inr [(''read'', Entries [''alice'', ''bob'', ''PUBLIC'']), (''write'', Entries [])]"
  using C7_grant_access [of "''carol''" acl_example "''read''" "[]"]
    C7_grant_access [of "''bob''" acl_example "''read''" "[''p1:u1'', ''.r:*'']"]
  by (simp add: acl_eval acl_example_def)

text \<open>
  Where the conditions of C7 fail. An existing read or write list with an entry that has
  no colon lets the grant succeed and the next \<open>access_control()\<close> raise \<open>IndexError\<close>;
  a cached empty header makes the grant raise \<open>TypeError\<close>; a mode other than \<open>read\<close>
  and \<open>write\<close> raises \<open>KeyError\<close>; a colon or comma in the user id or the project id,
  or the project id \<open>.r\<close> with the user id \<open>*\<close>, makes the next \<open>access_control()\<close>
  fail or list something other than the username.
\<close>

theorem C7_access_control_after_grant_fails:
  "fst (Container_grant_access
          (acl_example\<lparr>remote_headers := [(''x-container-read'', ''admin'')]\<rparr>)
          ''bob'' ''read'') = Inr () \<and>
   fst (Container_access_control
          (snd (Container_grant_access
                  (acl_example\<lparr>remote_headers := [(''x-container-read'', ''admin'')]\<rparr>)
                  ''bob'' ''read'')) True) = Inl IndexError \<and>
   fst (Container_access_control
          (snd (Container_grant_access
                  (acl_example\<lparr>remote_headers := [(''x-container-write'', ''admin'')]\<rparr>)
                  ''bob'' ''read'')) True) = Inl IndexError \<and>
   fst (Container_grant_access
          (acl_example\<lparr>metadata_cache := Some [(''x-container-read'', [])]\<rparr>)
          ''bob'' ''read'') = Inl TypeError \<and>
   fst (Container_grant_access acl_example ''bob'' ''admin'') = Inl (KeyError ''admin'') \<and>
   fst (Container_access_control
          (snd (Container_grant_access
                  (acl_example\<lparr>project := \<lparr>project_id = ''p1'', users = [(''u:2'', ''bob'')]\<rparr>,
                                 remote_headers := []\<rparr>)
                  ''bob'' ''read'')) True) =
     Inr [(''read'', Entries [''u'']), (''write'', Entries [])] \<and>
   fst (Container_access_control
          (snd (Container_grant_access
                  (acl_example\<lparr>project := \<lparr>project_id = ''p1'', users = [(''u,2'', ''bob'')]\<rparr>,
                                 remote_headers := []\<rparr>)
                  ''bob'' ''read'')) True) = Inl IndexError \<and>
   fst (Container_access_control
          (snd (Container_grant_access
                  (acl_example\<lparr>project := \<lparr>project_id = ''p:1'', users = [(''u2'', ''bob'')]\<rparr>,
                                 remote_headers := []\<rparr>)
                  ''bob'' ''read'')) True) =
     Inr [(''read'', Entries [''1'']), (''write'', Entries [])] \<and>
   fst (Container_access_control
          (snd (Container_grant_access
                  (acl_example\<lparr>project := \<lparr>project_id = ''p,1'', users = [(''u2'', ''bob'')]\<rparr>,
                                 remote_headers := []\<rparr>)
                  ''bob'' ''read'')) True) = Inl IndexError \<and>
   fst (Container_access_control
          (snd (Container_grant_access
                  (acl_example\<lparr>project := \<lparr>project_id = ''.r'', users = [(''*'', ''bob'')]\<rparr>,
                                 remote_headers := []\<rparr>)
                  ''bob'' ''read'')) True) =
     Inr [(''read'', Entries [''PUBLIC'']), (''write'', Entries [])]"
  by (simp add: acl_eval acl_example_def)

end
